theory Spec2Isabelle
  imports Complex_Main "HOL-Library.Multiset"
begin

section \<open>Strings and numbers of the host language\<close>

text \<open>
  Strings of the source are sequences of code units. The embedding works with the code
  units 0..255, which are the characters of \<^typ>\<open>string\<close>. Wall-clock instants are
  integer milliseconds since the epoch, as \<^verbatim>\<open>Date.now()\<close> and
  \<^verbatim>\<open>getTime()\<close> return them.
\<close>

function show_nat :: "nat \<Rightarrow> string" where
  "show_nat n =
     (if n < 10 then [''0123456789'' ! n]
      else show_nat (n div 10) @ [''0123456789'' ! (n mod 10)])"
  by pat_completeness auto
termination
  by (relation "measure id") auto

definition show_int :: "int \<Rightarrow> string" where
  "show_int i = (if i < 0 then CHR ''-'' # show_nat (nat (- i)) else show_nat (nat i))"

definition padStart2 :: "string \<Rightarrow> string" where
  \<comment> \<open>\<^verbatim>\<open>s.padStart(2, '0')\<close>\<close>
  "padStart2 s = replicate (2 - length s) CHR ''0'' @ s"

definition getUTCHours :: "int \<Rightarrow> int" where
  "getUTCHours t = (t div 3600000) mod 24"

definition getUTCMinutes :: "int \<Rightarrow> int" where
  "getUTCMinutes t = (t div 60000) mod 60"

section \<open>String operations of the host language\<close>

definition is_space :: "char \<Rightarrow> bool" where
  \<comment> \<open>the white space and line terminators among the code units 0..255: what \<^verbatim>\<open>\s\<close> and \<^verbatim>\<open>trim\<close> take\<close>
  "is_space c = (c \<in> set [CHR 0x09, CHR 0x0A, CHR 0x0B, CHR 0x0C, CHR 0x0D, CHR 0x20, CHR 0xA0])"

definition trim :: "string \<Rightarrow> string" where
  "trim s = rev (dropWhile is_space (rev (dropWhile is_space s)))"

definition trimEnd :: "string \<Rightarrow> string" where
  "trimEnd s = rev (dropWhile is_space (rev s))"

definition startsWith :: "string \<Rightarrow> string \<Rightarrow> bool" where
  "startsWith s p = (take (length p) s = p)"

text \<open>\<^verbatim>\<open>s.indexOf(p)\<close>, with \<open>None\<close> for -1.\<close>

fun indexOf :: "string \<Rightarrow> string \<Rightarrow> nat option" where
  "indexOf [] p = (if p = [] then Some 0 else None)"
| "indexOf (c # cs) p =
     (if startsWith (c # cs) p then Some 0 else map_option Suc (indexOf cs p))"

definition str_includes :: "string \<Rightarrow> string \<Rightarrow> bool" where
  \<comment> \<open>\<^verbatim>\<open>s.includes(p)\<close>\<close>
  "str_includes s p = (indexOf s p \<noteq> None)"

text \<open>
  The replacement text of \<^verbatim>\<open>s.replace(pattern, replacement)\<close> for a string pattern, which
  has no capture groups: \<^verbatim>\<open>$$\<close> is a dollar sign, \<^verbatim>\<open>$&\<close> the matched text, \<^verbatim>\<open>$`\<close> the
  text preceding the match and \<^verbatim>\<open>$'\<close> the text following it; any other dollar sign stands for
  itself.
\<close>

fun getSubstitution :: "string \<Rightarrow> string \<Rightarrow> string \<Rightarrow> string \<Rightarrow> string" where
  "getSubstitution matched preceding following (c # d # rest) =
     (if c = CHR ''$'' \<and> d = CHR ''$'' then CHR ''$'' # getSubstitution matched preceding following rest
      else if c = CHR ''$'' \<and> d = CHR ''&'' then matched @ getSubstitution matched preceding following rest
      else if c = CHR ''$'' \<and> d = CHR 0x60 then preceding @ getSubstitution matched preceding following rest
      else if c = CHR ''$'' \<and> d = CHR 0x27 then following @ getSubstitution matched preceding following rest
      else c # getSubstitution matched preceding following (d # rest))"
| "getSubstitution matched preceding following rest = rest"

text \<open>\<^verbatim>\<open>s.replace(pattern, replacement)\<close> for a string pattern: the first occurrence only.\<close>

definition replace :: "string \<Rightarrow> string \<Rightarrow> string \<Rightarrow> string" where
  "replace s pattern replacement =
     (case indexOf s pattern of
        None \<Rightarrow> s
      | Some i \<Rightarrow>
          (let preceding = take i s; following = drop (i + length pattern) s
           in preceding @ getSubstitution pattern preceding following replacement @ following))"

definition percent :: "nat \<Rightarrow> string" where
  \<comment> \<open>the escape of a byte \<open>b < 256\<close>\<close>
  "percent b = [CHR ''%'', ''0123456789ABCDEF'' ! (b div 16), ''0123456789ABCDEF'' ! (b mod 16)]"

definition is_alnum :: "char \<Rightarrow> bool" where
  \<comment> \<open>\<^verbatim>\<open>[A-Za-z0-9]\<close>\<close>
  "is_alnum c =
     (let n = (of_char c :: nat)
      in (97 \<le> n \<and> n \<le> 122) \<or> (65 \<le> n \<and> n \<le> 90) \<or> (48 \<le> n \<and> n \<le> 57))"

definition uri_unreserved :: "char \<Rightarrow> bool" where
  "uri_unreserved c = (is_alnum c \<or> c \<in> set ''-_.!~*()'' \<or> c = CHR 0x27)"

text \<open>
  \<^verbatim>\<open>encodeURIComponent\<close>: an unreserved character stands for itself, any other code unit is
  written as the escaped bytes of its UTF-8 form (one byte below 128, two bytes from 128
  to 255). No string of code units 0..255 has a lone surrogate, so it never raises.
\<close>

definition encode_unit :: "char \<Rightarrow> string" where
  "encode_unit c =
     (let n = (of_char c :: nat)
      in if uri_unreserved c then [c]
         else if n < 128 then percent n
         else percent (192 + n div 64) @ percent (128 + n mod 64))"

definition encodeURIComponent :: "string \<Rightarrow> string" where
  "encodeURIComponent s = concat (map encode_unit s)"

section \<open>Values read from JSON\<close>

text \<open>
  The value that \<^verbatim>\<open>JSON.parse\<close> returns. A number is kept as the text that the host
  prints for it, which is \<^verbatim>\<open>0\<close> exactly for the two zeros; an object is the list of its
  keys and values, each key once.
\<close>

datatype jsval =
    JNull
  | JBool bool
  | JNum string
  | JStr string
  | JArr "jsval list"
  | JObj "(string \<times> jsval) list"

datatype js_error = SyntaxError | TypeError | RangeError

text \<open>Truthiness; \<open>None\<close> is \<^verbatim>\<open>undefined\<close>.\<close>

fun truthy :: "jsval \<Rightarrow> bool" where
  "truthy JNull = False"
| "truthy (JBool b) = b"
| "truthy (JNum n) = (n \<noteq> ''0'')"
| "truthy (JStr s) = (s \<noteq> [])"
| "truthy (JArr xs) = True"
| "truthy (JObj kvs) = True"

definition truthy_opt :: "jsval option \<Rightarrow> bool" where
  "truthy_opt v = (case v of None \<Rightarrow> False | Some x \<Rightarrow> truthy x)"

definition or_val :: "jsval option \<Rightarrow> jsval \<Rightarrow> jsval" where
  \<comment> \<open>\<^verbatim>\<open>a || b\<close>\<close>
  "or_val a b = (case a of None \<Rightarrow> b | Some x \<Rightarrow> if truthy x then x else b)"

text \<open>
  Reading a property of a parsed value: \<^verbatim>\<open>null\<close> raises, an object gives the value of
  the key or \<^verbatim>\<open>undefined\<close>, and so does any other value for the keys used here, none of
  which is a property of strings, numbers, booleans or arrays.
\<close>

definition get_prop :: "jsval \<Rightarrow> string \<Rightarrow> js_error + jsval option" where
  "get_prop v k =
     (case v of JNull \<Rightarrow> Inl TypeError | JObj kvs \<Rightarrow> Inr (map_of kvs k) | _ \<Rightarrow> Inr None)"

fun join_comma :: "string list \<Rightarrow> string" where
  "join_comma [] = []"
| "join_comma [s] = s"
| "join_comma (s # t # ss) = s @ '','' @ join_comma (t # ss)"

text \<open>
  Conversion to a string, as a template literal, \<^verbatim>\<open>replace\<close> and
  \<^verbatim>\<open>encodeURIComponent\<close> apply it. An array joins its elements with commas, a
  \<^verbatim>\<open>null\<close> element giving the empty string. An object gives \<^verbatim>\<open>[object Object]\<close>,
  unless a key \<^verbatim>\<open>toString\<close> of its own hides the inherited method: then the conversion
  finds no method that returns a primitive value and raises a TypeError (\<open>None\<close>).
\<close>

fun toString :: "jsval \<Rightarrow> string option"
  and toString_elems :: "jsval list \<Rightarrow> string list option" where
  "toString JNull = Some ''null''"
| "toString (JBool b) = Some (if b then ''true'' else ''false'')"
| "toString (JNum n) = Some n"
| "toString (JStr s) = Some s"
| "toString (JArr xs) = map_option join_comma (toString_elems xs)"
| "toString (JObj kvs) =
     (if map_of kvs ''toString'' = None then Some ''[object Object]'' else None)"
| "toString_elems [] = Some []"
| "toString_elems (x # xs) =
     (case (if x = JNull then Some [] else toString x) of
        None \<Rightarrow> None
      | Some s \<Rightarrow> map_option ((#) s) (toString_elems xs))"

section \<open>Configuration (config.ts)\<close>

datatype OutputMode = text_mode | image_mode
datatype FetchMode = fetch_auto | fetch_always | fetch_never
datatype SummaryScope = scope_global | scope_guild
datatype DetectScope = detect_guild | detect_all

text \<open>
  The interface \<^verbatim>\<open>Config\<close>. A field the schema may leave undefined is an option.
  Durations and hours are integers; the type \<open>'num\<close> stands for the numbers that the
  plugin only passes on (coordinates, thresholds, sizes).
\<close>

record 'num Config =
  sunriseApi :: "string option"
  defaultLat :: 'num
  defaultLng :: 'num
  abnormalThreshold :: 'num
  outputMode :: OutputMode
  useStorageService :: bool
  storageCacheHours :: 'num
  travelMessageTemplate :: string
  aigcEnabled :: bool
  aigcChannel :: string
  aigcPrompt :: string
  logPath :: "string option"
  backgroundStoragePath :: string
  llmLocationEnabled :: bool
  llmLocationModel :: string
  llmLocationCustomContext :: string
  llmFailureCooldownMs :: "int option"
  imageSearchPrompt :: string
  unsplashAccessKey :: string
  pexelsApiKey :: string
  backgroundFetchMode :: FetchMode
  backgroundFetchTimeoutMs :: 'num
  backgroundInlineMaxBytes :: 'num
  worldMapUseTianditu :: bool
  tiandituToken :: string
  tiandituTimeoutMs :: 'num
  worldMapOfficialOnly :: bool
  logRetentionDays :: 'num
  monthlySummaryEnabled :: bool
  monthlySummaryScope :: SummaryScope
  experimentalAutoDetect :: bool
  experimentalAutoDetectScope :: DetectScope
  silentRecordEnabled :: bool
  silentRecordAutoTravel :: bool
  nightOwlEnabled :: bool
  nightOwlStartHour :: "int option"
  nightOwlEndHour :: "int option"
  nightOwlGrayscaleAvatar :: bool
  debug :: bool

text \<open>
  A configuration for running the functions on concrete inputs: the schema's defaults
  where they are plain ASCII, an ASCII message template, both optional services of the
  dynamic features switched on.
\<close>

definition example_config :: "int Config" where
  "example_config =
     \<lparr> sunriseApi = None, defaultLat = 30, defaultLng = 120, abnormalThreshold = 3,
       outputMode = image_mode, useStorageService = True, storageCacheHours = 24,
       travelMessageTemplate = ''went to {landmark}, {country}!'',
       aigcEnabled = True, aigcChannel = ''pig'', aigcPrompt = ''a pig at {landmark} in {country}'',
       logPath = None, backgroundStoragePath = ''./data/pig/backgrounds'',
       llmLocationEnabled = True, llmLocationModel = ''gemini-flash'',
       llmLocationCustomContext = [], llmFailureCooldownMs = Some 300000,
       imageSearchPrompt = ''{landmark} {country} landscape'',
       unsplashAccessKey = [], pexelsApiKey = [],
       backgroundFetchMode = fetch_auto, backgroundFetchTimeoutMs = 8000,
       backgroundInlineMaxBytes = 8388608,
       worldMapUseTianditu = False, tiandituToken = [], tiandituTimeoutMs = 5000,
       worldMapOfficialOnly = False, logRetentionDays = 45,
       monthlySummaryEnabled = False, monthlySummaryScope = scope_global,
       experimentalAutoDetect = False, experimentalAutoDetectScope = detect_guild,
       silentRecordEnabled = True, silentRecordAutoTravel = False,
       nightOwlEnabled = True, nightOwlStartHour = Some 0, nightOwlEndHour = Some 5,
       nightOwlGrayscaleAvatar = False, debug = False \<rparr>"

section \<open>Persisted rows and value objects (database.ts, constants.ts, services)\<close>

text \<open>
  A destination. The fields of a destination parsed from an LLM answer hold whatever
  JSON values the answer had, so the record is given over the type of field values: the
  resolver and the orchestrator work with destinations over JSON values, and a catalog
  entry holds strings.
\<close>

record 'v Location =
  country :: 'v
  countryZh :: 'v
  city :: 'v
  landmark :: 'v
  landmarkZh :: 'v
  timezone :: 'v
  landscapeUrl :: 'v

text \<open>The caller's identity and the result of one travel (services/travel.ts).\<close>

record UserInfo =
  userId :: string
  username :: string
  avatarUrl :: string

record TravelResult =
  location :: "jsval Location"
  imageBuffer :: "string option"
  imageUrl :: "string option"
  isAIGC :: bool
  msg :: string

text \<open>
  A row of the table \<^verbatim>\<open>pig_user_state\<close>, with the columns the middleware reads or
  writes. The column \<^verbatim>\<open>hourlyMessageCounts\<close> stores the JSON text of a record from
  hour keys to counts; the embedding keeps the decoded record, and a missing, empty or
  unparseable text is the empty record, as the source reads it.
\<close>

record PigUserState =
  userId :: string
  platform :: string
  guildId :: string
  abnormalCount :: nat
  nightOwlCount :: nat
  lastNightOwlDate :: "int option"
  totalMessageCount :: nat
  nightMessageCount :: nat
  hourlyMessageCounts :: "int \<rightharpoonup> nat"

text \<open>A row of the table \<^verbatim>\<open>pig_travel_log\<close>; the key \<open>id\<close> is assigned by the store.\<close>

record 'v PigTravelLog =
  userId :: string
  platform :: string
  guildId :: string
  timestamp :: int
  country :: 'v
  countryZh :: 'v
  location :: 'v
  locationZh :: 'v
  timezone :: 'v
  imagePath :: string
  isAIGC :: bool

section \<open>Sunrise-band calculator (services/location.ts)\<close>

datatype region =
    EastAsiaPacific | SouthAndCentralAsia | MiddleEastEastAfrica | WesternEuropeAfrica
  | SouthAmericaAtlantic | NorthAmericaWest | CentralPacific | Everywhere

record SunriseTimezoneHint =
  utcOffsetRange :: "string \<times> string"
  regionHint :: region
  beijingTime :: string
  beijingHour :: int
  idealOffset :: int
  minOffset :: int
  maxOffset :: int

definition normalizeOffset :: "int \<Rightarrow> int" where
  "normalizeOffset offset =
     (if offset < - 12 then offset + 24
      else if offset > 14 then offset - 24
      else offset)"

definition getRegionByOffset :: "int \<Rightarrow> region" where
  "getRegionByOffset offset =
     (if offset \<ge> 9 \<and> offset \<le> 12 then EastAsiaPacific
      else if offset \<ge> 5 \<and> offset \<le> 8 then SouthAndCentralAsia
      else if offset \<ge> 2 \<and> offset \<le> 4 then MiddleEastEastAfrica
      else if offset \<ge> - 1 \<and> offset \<le> 1 then WesternEuropeAfrica
      else if offset \<ge> - 5 \<and> offset \<le> - 2 then SouthAmericaAtlantic
      else if offset \<ge> - 8 \<and> offset \<le> - 6 then NorthAmericaWest
      else if offset \<ge> - 12 \<and> offset \<le> - 9 then CentralPacific
      else Everywhere)"

definition formatOffset :: "int \<Rightarrow> string" where
  "formatOffset offset =
     (if offset \<ge> 0 then ''UTC+'' @ show_int offset else ''UTC'' @ show_int offset)"

text \<open>
  \<open>getSunriseTimezoneHint now\<close> is the source function run at the instant \<open>now\<close>.
  The field \<open>utcOffsetRange\<close> holds the two formatted bounds, which the source joins
  with a fixed separator word; \<open>regionHint\<close> names the row of the source's table.
\<close>

definition getSunriseTimezoneHint :: "int \<Rightarrow> SunriseTimezoneHint" where
  "getSunriseTimezoneHint now =
     (let beijingNow = now + 8 * 60 * 60 * 1000;
          bjHour = getUTCHours beijingNow;
          bjMinute = getUTCMinutes beijingNow;
          targetLocalHour = 6;
          ideal = targetLocalHour - bjHour + 8;
          minO = normalizeOffset (ideal - 1);
          maxO = normalizeOffset (ideal + 1)
      in \<lparr> utcOffsetRange = (formatOffset minO, formatOffset maxO),
           regionHint = getRegionByOffset ideal,
           beijingTime = padStart2 (show_int bjHour) @ '':'' @ padStart2 (show_int bjMinute),
           beijingHour = bjHour,
           idealOffset = ideal,
           minOffset = minO,
           maxOffset = maxO \<rparr>)"

section \<open>Message statistics and night-owl middleware (index.ts)\<close>

record Session =
  session_userId :: string
  session_platform :: string
  session_guildId :: string
  session_content :: string
  session_elements :: "string list option"

type_synonym user_state_table = "(string \<times> string \<times> string) \<rightharpoonup> PigUserState"

text \<open>
  Local calendar fields of an instant. \<open>tz t\<close> is the offset of the host's time zone at the
  instant \<open>t\<close>, in milliseconds. \<open>dateOnly\<close> stands for
  \<^verbatim>\<open>new Date(d.getFullYear(), d.getMonth(), d.getDate()).getTime()\<close>: the local day
  of the instant, as a day number.
\<close>

definition getHours :: "(int \<Rightarrow> int) \<Rightarrow> int \<Rightarrow> int" where
  "getHours tz t = ((t + tz t) div 3600000) mod 24"

definition dateOnly :: "(int \<Rightarrow> int) \<Rightarrow> int \<Rightarrow> int" where
  "dateOnly tz t = (t + tz t) div 86400000"

definition isNightOwlTime :: "int \<Rightarrow> int \<Rightarrow> int \<Rightarrow> bool" where
  "isNightOwlTime startHour endHour currentHour =
     (if startHour \<le> endHour then currentHour \<ge> startHour \<and> currentHour < endHour
      else currentHour \<ge> startHour \<or> currentHour < endHour)"

definition alreadyRecordedToday :: "(int \<Rightarrow> int) \<Rightarrow> int \<Rightarrow> int option \<Rightarrow> bool" where
  "alreadyRecordedToday tz now lastNightOwl =
     (case lastNightOwl of
        None \<Rightarrow> False
      | Some lastDate \<Rightarrow> dateOnly tz lastDate = dateOnly tz now)"

text \<open>
  The row that an upsert creates for a new key before it writes the given columns: the
  host's initial values (0 for an unsigned column, no timestamp, no text).
\<close>

definition initial_row :: "string \<Rightarrow> string \<Rightarrow> string \<Rightarrow> PigUserState" where
  "initial_row uid plat gid =
     \<lparr> PigUserState.userId = uid, PigUserState.platform = plat, PigUserState.guildId = gid,
       abnormalCount = 0, nightOwlCount = 0,
       lastNightOwlDate = None, totalMessageCount = 0, nightMessageCount = 0,
       hourlyMessageCounts = Map.empty \<rparr>"

definition statsMiddleware ::
  "(int \<Rightarrow> int) \<Rightarrow> 'num Config \<Rightarrow> int \<Rightarrow> Session \<Rightarrow> user_state_table \<Rightarrow> user_state_table" where
  "statsMiddleware tz config now session db =
     (let hasContent = (session_content session \<noteq> []);
          hasElements = (case session_elements session of None \<Rightarrow> False | Some es \<Rightarrow> length es > 0)
      in if session_userId session = [] \<or> (\<not> hasContent \<and> \<not> hasElements) then db
         else
           let currentHour = getHours tz now;
               key = (session_platform session, session_userId session, session_guildId session);
               userState = db key;
               hourlyCounts = (case userState of None \<Rightarrow> Map.empty | Some u \<Rightarrow> hourlyMessageCounts u);
               hourlyCounts' = hourlyCounts (currentHour \<mapsto>
                  (case hourlyCounts currentHour of None \<Rightarrow> 0 | Some c \<Rightarrow> c) + 1);
               startHour = (case nightOwlStartHour config of None \<Rightarrow> 0 | Some h \<Rightarrow> h);
               endHour = (case nightOwlEndHour config of None \<Rightarrow> 5 | Some h \<Rightarrow> h);
               night = isNightOwlTime startHour endHour currentHour;
               base = (case userState of
                         None \<Rightarrow> initial_row (session_userId session) (session_platform session)
                                   (session_guildId session)
                       | Some u \<Rightarrow> u);
               row1 = base \<lparr>
                  totalMessageCount := (case userState of None \<Rightarrow> 0 | Some u \<Rightarrow> totalMessageCount u) + 1,
                  nightMessageCount := (case userState of None \<Rightarrow> 0 | Some u \<Rightarrow> nightMessageCount u)
                                        + (if night then 1 else 0),
                  hourlyMessageCounts := hourlyCounts' \<rparr>;
               row2 =
                 (if nightOwlEnabled config \<and> night
                     \<and> \<not> alreadyRecordedToday tz now
                           (case userState of None \<Rightarrow> None | Some u \<Rightarrow> lastNightOwlDate u)
                  then row1 \<lparr>
                         nightOwlCount := (case userState of None \<Rightarrow> 0 | Some u \<Rightarrow> nightOwlCount u) + 1,
                         lastNightOwlDate := Some now \<rparr>
                  else row1)
           in db (key \<mapsto> row2))"

text \<open>The messages of one user in one guild, handled one after the other.\<close>

fun statsMiddleware_all ::
  "(int \<Rightarrow> int) \<Rightarrow> 'num Config \<Rightarrow> (int \<times> Session) list \<Rightarrow> user_state_table \<Rightarrow> user_state_table" where
  "statsMiddleware_all tz config [] db = db"
| "statsMiddleware_all tz config ((now, session) # ms) db =
     statsMiddleware_all tz config ms (statsMiddleware tz config now session db)"

text \<open>The counters of a key, read the way the source reads a row that may be missing.\<close>

definition owl_count :: "user_state_table \<Rightarrow> string \<times> string \<times> string \<Rightarrow> nat" where
  "owl_count db key = (case db key of None \<Rightarrow> 0 | Some u \<Rightarrow> nightOwlCount u)"

definition owl_date :: "user_state_table \<Rightarrow> string \<times> string \<times> string \<Rightarrow> int option" where
  "owl_date db key = (case db key of None \<Rightarrow> None | Some u \<Rightarrow> lastNightOwlDate u)"

definition total_count :: "user_state_table \<Rightarrow> string \<times> string \<times> string \<Rightarrow> nat" where
  "total_count db key = (case db key of None \<Rightarrow> 0 | Some u \<Rightarrow> totalMessageCount u)"

definition night_count :: "user_state_table \<Rightarrow> string \<times> string \<times> string \<Rightarrow> nat" where
  "night_count db key = (case db key of None \<Rightarrow> 0 | Some u \<Rightarrow> nightMessageCount u)"

definition hour_count :: "user_state_table \<Rightarrow> string \<times> string \<times> string \<Rightarrow> int \<Rightarrow> nat" where
  "hour_count db key h =
     (case db key of None \<Rightarrow> 0
      | Some u \<Rightarrow> (case hourlyMessageCounts u h of None \<Rightarrow> 0 | Some c \<Rightarrow> c))"

definition session_key :: "Session \<Rightarrow> string \<times> string \<times> string" where
  "session_key session = (session_platform session, session_userId session, session_guildId session)"

definition counted :: "Session \<Rightarrow> bool" where
  "counted session =
     (session_userId session \<noteq> [] \<and>
      (session_content session \<noteq> [] \<or>
       (case session_elements session of None \<Rightarrow> False | Some es \<Rightarrow> length es > 0)))"

definition in_window :: "(int \<Rightarrow> int) \<Rightarrow> 'num Config \<Rightarrow> int \<Rightarrow> bool" where
  "in_window tz config now =
     isNightOwlTime (case nightOwlStartHour config of None \<Rightarrow> 0 | Some h \<Rightarrow> h)
       (case nightOwlEndHour config of None \<Rightarrow> 5 | Some h \<Rightarrow> h) (getHours tz now)"


text \<open>
  The invariant of one local calendar day \<open>d\<close>: the counter of the key either still has
  its value \<open>c\<close> from the start of the day's messages, or it is \<open>c + 1\<close> and the recorded
  date lies on the day \<open>d\<close>.
\<close>

definition day_inv :: "(int \<Rightarrow> int) \<Rightarrow> int \<Rightarrow> nat \<Rightarrow> string \<times> string \<times> string \<Rightarrow> user_state_table \<Rightarrow> bool" where
  "day_inv tz d c k db =
     (owl_count db k = c \<or>
      (owl_count db k = c + 1 \<and>
       (case owl_date db k of None \<Rightarrow> False | Some t \<Rightarrow> dateOnly tz t = d)))"

section \<open>Leaderboard ranking (services/leaderboard.ts)\<close>

text \<open>
  \<^verbatim>\<open>a || b\<close> on values that are a string or undefined: the empty string and undefined
  are the falsy ones.
\<close>

definition or_else :: "string option \<Rightarrow> string option \<Rightarrow> string option" where
  "or_else a b = (case a of None \<Rightarrow> b | Some s \<Rightarrow> if s = [] then b else Some s)"

definition or_string :: "string option \<Rightarrow> string \<Rightarrow> string" where
  "or_string a b = (case a of None \<Rightarrow> b | Some s \<Rightarrow> if s = [] then b else s)"

text \<open>
  \<^verbatim>\<open>arr.slice(0, end)\<close>: a negative end counts from the end of the array.
\<close>

definition slice0 :: "'a list \<Rightarrow> int \<Rightarrow> 'a list" where
  "slice0 xs end =
     (let len = int (length xs);
          final = (if end < 0 then max (len + end) 0 else min end len)
      in take (nat final) xs)"

text \<open>
  \<^verbatim>\<open>arr.sort(compare)\<close> is stable: elements that compare equal keep their order. Insertion
  from the right, placing an element before the first one it does not have to follow, is
  such a sort.
\<close>

fun insert_sorted :: "('a \<Rightarrow> 'a \<Rightarrow> int) \<Rightarrow> 'a \<Rightarrow> 'a list \<Rightarrow> 'a list" where
  "insert_sorted compare x [] = [x]"
| "insert_sorted compare x (y # ys) =
     (if compare x y \<le> 0 then x # y # ys else y # insert_sorted compare x ys)"

definition array_sort :: "('a \<Rightarrow> 'a \<Rightarrow> int) \<Rightarrow> 'a list \<Rightarrow> 'a list" where
  "array_sort compare xs = foldr (insert_sorted compare) xs []"

text \<open>
  A \<^verbatim>\<open>Map\<close> keeps its keys in the order of their first insertion, and so does a
  \<^verbatim>\<open>Set\<close>: both are lists here.
\<close>

definition map_has :: "('k \<times> 'v) list \<Rightarrow> 'k \<Rightarrow> bool" where
  "map_has m k = (map_of m k \<noteq> None)"

fun map_set :: "('k \<times> 'v) list \<Rightarrow> 'k \<Rightarrow> 'v \<Rightarrow> ('k \<times> 'v) list" where
  "map_set [] k v = [(k, v)]"
| "map_set (p # ps) k v = (if fst p = k then (k, v) # ps else p # map_set ps k v)"

definition set_add :: "'a list \<Rightarrow> 'a \<Rightarrow> 'a list" where
  "set_add s x = (if x \<in> set s then s else s @ [x])"

record UserStat =
  tripCount :: nat
  countries :: "string list"

record PigLeaderboardEntry =
  userId :: string
  username :: string
  avatarUrl :: string
  tripCount :: nat
  countryCount :: nat
  score :: nat

definition countryKey :: "(string \<Rightarrow> string option) \<Rightarrow> string PigTravelLog \<Rightarrow> string" where
  "countryKey getCountryISOCode row =
     or_string (or_else (getCountryISOCode (PigTravelLog.country row))
                        (getCountryISOCode (PigTravelLog.countryZh row)))
               (PigTravelLog.country row)"

text \<open>The body of the loop over the rows: one row, the map before and after.\<close>

definition count_log ::
  "(string \<Rightarrow> string option) \<Rightarrow> string PigTravelLog \<Rightarrow> (string \<times> UserStat) list
     \<Rightarrow> (string \<times> UserStat) list" where
  "count_log getCountryISOCode row userStats =
     (let uid = PigTravelLog.userId row;
          userStats1 = (if \<not> map_has userStats uid
                        then map_set userStats uid \<lparr> UserStat.tripCount = 0, countries = [] \<rparr>
                        else userStats)
      in case map_of userStats1 uid of
           None \<Rightarrow> userStats1
         | Some stat \<Rightarrow>
             map_set userStats1 uid
               (stat \<lparr> UserStat.tripCount := UserStat.tripCount stat + 1,
                       countries := set_add (countries stat) (countryKey getCountryISOCode row) \<rparr>))"

definition make_entry :: "string \<times> UserStat \<Rightarrow> PigLeaderboardEntry" where
  "make_entry p =
     (let countryCount = length (countries (snd p))
      in \<lparr> PigLeaderboardEntry.userId = fst p, username = fst p, avatarUrl = [],
           tripCount = UserStat.tripCount (snd p), countryCount = countryCount,
           score = UserStat.tripCount (snd p) + countryCount * 2 \<rparr>)"

definition compare_score :: "PigLeaderboardEntry \<Rightarrow> PigLeaderboardEntry \<Rightarrow> int" where
  "compare_score a b = int (score b) - int (score a)"

text \<open>The entries before sorting, in the order of the map.\<close>

definition leaderboard_entries ::
  "(string \<Rightarrow> string option) \<Rightarrow> string PigTravelLog list \<Rightarrow> PigLeaderboardEntry list" where
  "leaderboard_entries getCountryISOCode logs =
     map make_entry (fold (count_log getCountryISOCode) logs [])"

text \<open>
  \<open>getPigLeaderboard\<close>: the table is the list of its rows, and the query keeps the rows of
  the guild and platform. \<open>getCountryISOCode\<close> (utils/countryMapping.ts) is a parameter.
\<close>

definition getPigLeaderboard ::
  "(string \<Rightarrow> string option) \<Rightarrow> string PigTravelLog list \<Rightarrow> string \<Rightarrow> string \<Rightarrow> int
     \<Rightarrow> PigLeaderboardEntry list" where
  "getPigLeaderboard getCountryISOCode table gid plat limit =
     (let logs = filter (\<lambda>l. PigTravelLog.guildId l = gid \<and> PigTravelLog.platform l = plat) table
      in if length logs = 0 then []
         else slice0 (array_sort compare_score (leaderboard_entries getCountryISOCode logs)) limit)"

text \<open>What the ranking is measured against: a user's trips, and the user's country keys.\<close>

definition trips_of :: "string \<Rightarrow> string PigTravelLog list \<Rightarrow> string PigTravelLog list" where
  "trips_of u logs = filter (\<lambda>l. PigTravelLog.userId l = u) logs"

definition guild_logs :: "string PigTravelLog list \<Rightarrow> string \<Rightarrow> string \<Rightarrow> string PigTravelLog list" where
  "guild_logs table gid plat =
     filter (\<lambda>l. PigTravelLog.guildId l = gid \<and> PigTravelLog.platform l = plat) table"

definition first_seen :: "'a list \<Rightarrow> 'a list" where
  "first_seen xs = rev (remdups (rev xs))"

text \<open>The invariant of the loop over the rows, after the rows \<open>logs\<close>.\<close>

definition stats_inv ::
  "(string \<Rightarrow> string option) \<Rightarrow> string PigTravelLog list \<Rightarrow> (string \<times> UserStat) list \<Rightarrow> bool" where
  "stats_inv getISO logs S \<longleftrightarrow>
     map fst S = first_seen (map PigTravelLog.userId logs) \<and>
     (\<forall>u st. map_of S u = Some st \<longrightarrow>
        UserStat.tripCount st = length (trips_of u logs) \<and>
        countries st = first_seen (map (countryKey getISO) (trips_of u logs)))"

text \<open>
  Rows for running the ranking. The lookup knows Norway under two names and Japan. In
  guild g1, user A travels four times: to Norway, to Atlantis, which the lookup does not
  know, to Norway under its other name, and to Norway under a name that only the
  localized column has in a form the lookup knows; user B travels six times to Japan. A
  row of another guild lies between them.
\<close>

definition example_iso :: "string \<Rightarrow> string option" where
  "example_iso c =
     (if c = ''Norway'' \<or> c = ''Norge'' then Some ''NO''
      else if c = ''Japan'' then Some ''JP''
      else None)"

definition example_log :: "string \<Rightarrow> string \<Rightarrow> string \<Rightarrow> string \<Rightarrow> string PigTravelLog" where
  "example_log gid uid c cz =
     \<lparr> PigTravelLog.userId = uid, platform = ''qq'', guildId = gid, timestamp = 0,
       country = c, countryZh = cz, location = ''somewhere'', locationZh = ''somewhere'',
       timezone = ''UTC'', imagePath = [], isAIGC = False \<rparr>"

definition example_table :: "string PigTravelLog list" where
  "example_table =
     [example_log ''g1'' ''A'' ''Norway'' ''Norway'', example_log ''g1'' ''B'' ''Japan'' ''Japan'',
      example_log ''g2'' ''C'' ''Japan'' ''Japan'', example_log ''g1'' ''B'' ''Japan'' ''Japan'',
      example_log ''g1'' ''A'' ''Atlantis'' ''Atlantis'', example_log ''g1'' ''B'' ''Japan'' ''Japan'',
      example_log ''g1'' ''A'' ''Norge'' ''Norge'', example_log ''g1'' ''B'' ''Japan'' ''Japan'',
      example_log ''g1'' ''B'' ''Japan'' ''Japan'', example_log ''g1'' ''A'' ''Noreg'' ''Norway'',
      example_log ''g1'' ''B'' ''Japan'' ''Japan'']"
section \<open>Parsing the answer of the language model (services/location.ts)\<close>

text \<open>
  The first match of \<^verbatim>\<open>/```(?:json)?\s*([\s\S]*?)\s*```/\<close>, as its capture group. The
  match starts at the first fence; the optional word and the white space after it are
  taken greedily; the group is lazy, so it ends before the first closing fence, without
  the white space in front of that fence. Neither the word nor white space holds a
  backquote, so giving them back never finds a closing fence that was not found before.
\<close>

definition fence :: string where
  "fence = [CHR 0x60, CHR 0x60, CHR 0x60]"

definition jsonMatch :: "string \<Rightarrow> string option" where
  "jsonMatch content =
     (case indexOf content fence of
        None \<Rightarrow> None
      | Some i \<Rightarrow>
          (let r1 = drop (i + 3) content;
               r2 = (if startsWith r1 ''json'' then drop 4 r1 else r1);
               r3 = dropWhile is_space r2
           in case indexOf r3 fence of
                None \<Rightarrow> None
              | Some q \<Rightarrow> Some (trimEnd (take q r3))))"

definition lastIndexOf :: "string \<Rightarrow> char \<Rightarrow> nat option" where
  "lastIndexOf s c =
     (case indexOf (rev s) [c] of None \<Rightarrow> None | Some j \<Rightarrow> Some (length s - 1 - j))"

definition quoted :: "string \<Rightarrow> string" where
  "quoted s = CHR 0x22 # s @ [CHR 0x22]"

text \<open>
  The first match of \<^verbatim>\<open>/\{[\s\S]*"country"[\s\S]*"landmark"[\s\S]*\}/\<close>, as the matched
  text. It starts at the first opening brace, needs the quoted word country, later the
  quoted word landmark and later a closing brace, and it ends, the last star being
  greedy, at the last closing brace of the text.
\<close>

definition objectMatch :: "string \<Rightarrow> string option" where
  "objectMatch content =
     (case indexOf content ''{'' of
        None \<Rightarrow> None
      | Some i \<Rightarrow>
          (let r = drop i content
           in case indexOf (drop 1 r) (quoted ''country'') of
                None \<Rightarrow> None
              | Some a \<Rightarrow>
                  (case indexOf (drop (1 + a + 9) r) (quoted ''landmark'') of
                     None \<Rightarrow> None
                   | Some b \<Rightarrow>
                       (case lastIndexOf r (CHR ''}'') of
                          None \<Rightarrow> None
                        | Some e \<Rightarrow>
                            if 1 + a + 9 + b + 10 \<le> e then Some (take (e + 1) r) else None))))"

definition field :: "jsval \<Rightarrow> string \<Rightarrow> jsval option" where
  \<comment> \<open>\<^verbatim>\<open>data.key\<close> for a value that is not \<^verbatim>\<open>null\<close>\<close>
  "field data k = (case data of JObj kvs \<Rightarrow> map_of kvs k | _ \<Rightarrow> None)"

text \<open>
  The statements of \<open>parseLocationResponse\<close> after \<^verbatim>\<open>JSON.parse\<close>: the check of the
  required fields, the record with its defaults, and the repair of the photo URL.
  \<open>Inr None\<close> is the returned \<^verbatim>\<open>null\<close>; \<open>Inl\<close> is an exception: reading a property of
  \<^verbatim>\<open>null\<close>, calling \<^verbatim>\<open>startsWith\<close> on a photo URL that is not a string, or converting
  a landmark or country that has no string form.
\<close>

definition buildLocation :: "jsval \<Rightarrow> js_error + jsval Location option" where
  "buildLocation data =
     (if data = JNull then Inl TypeError
      else
        (case (field data ''country'', field data ''landmark'', field data ''landscapeUrl'') of
           (Some c, Some l, Some u) \<Rightarrow>
             if \<not> truthy c \<or> \<not> truthy l \<or> \<not> truthy u then Inr None
             else
               (let location =
                      \<lparr> Location.country = c,
                        countryZh = or_val (field data ''countryZh'') c,
                        city = or_val (field data ''city'') (JStr []),
                        landmark = l,
                        landmarkZh = or_val (field data ''landmarkZh'') l,
                        timezone = or_val (field data ''timezone'') (JStr ''UTC''),
                        landscapeUrl = u \<rparr>
                in case u of
                     JStr url \<Rightarrow>
                       if startsWith url ''http'' then Inr (Some location)
                       else
                         (case (toString l, toString c) of
                            (Some ls, Some cs) \<Rightarrow>
                              Inr (Some (location \<lparr> landscapeUrl :=
                                JStr (''https://images.unsplash.com/featured/?''
                                      @ encodeURIComponent ls @ '','' @ encodeURIComponent cs) \<rparr>))
                          | _ \<Rightarrow> Inl TypeError)
                   | _ \<Rightarrow> Inl TypeError)
         | _ \<Rightarrow> Inr None))"

text \<open>The \<^verbatim>\<open>try\<close> block: \<open>JSON_parse\<close> is \<^verbatim>\<open>JSON.parse\<close>, with \<open>None\<close> for its SyntaxError.\<close>

definition jsonStr :: "string \<Rightarrow> string" where
  "jsonStr content = (case jsonMatch content of Some g \<Rightarrow> g | None \<Rightarrow> content)"

definition parseAttempt :: "(string \<Rightarrow> jsval option) \<Rightarrow> string \<Rightarrow> js_error + jsval Location option" where
  "parseAttempt JSON_parse content =
     (case JSON_parse (trim (jsonStr content)) of
        None \<Rightarrow> Inl SyntaxError
      | Some data \<Rightarrow> buildLocation data)"

text \<open>
  \<open>parseLocationResponse JSON_parse depth content\<close>. The function calls itself from its
  \<^verbatim>\<open>catch\<close> block on the loosely matched object, possibly on the same text again; \<open>depth\<close>
  is the number of calls that the call stack still has room for, and a call at depth 0
  raises the RangeError of the exhausted stack. The inner \<^verbatim>\<open>try\<close> turns every exception
  of the nested call into the returned \<^verbatim>\<open>null\<close>.
\<close>

fun parseLocationResponse ::
  "(string \<Rightarrow> jsval option) \<Rightarrow> nat \<Rightarrow> string \<Rightarrow> js_error + jsval Location option" where
  "parseLocationResponse JSON_parse 0 content = Inl RangeError"
| "parseLocationResponse JSON_parse (Suc depth) content =
     (case parseAttempt JSON_parse content of
        Inr r \<Rightarrow> Inr r
      | Inl e \<Rightarrow>
          (case objectMatch content of
             None \<Rightarrow> Inr None
           | Some m \<Rightarrow>
               (case parseLocationResponse JSON_parse depth m of
                  Inr r \<Rightarrow> Inr r
                | Inl e' \<Rightarrow> Inr None)))"

text \<open>
  The two kinds of answer that the parser has to reject: a text whose JSON candidate (the
  body of the fenced block, or else the whole text) does not parse, and a text whose
  candidate parses to a value other than \<^verbatim>\<open>null\<close> that lacks a required field (the
  field is missing or falsy).
\<close>

definition malformed :: "(string \<Rightarrow> jsval option) \<Rightarrow> string \<Rightarrow> bool" where
  "malformed JSON_parse content = (JSON_parse (trim (jsonStr content)) = None)"

definition missing_required :: "jsval \<Rightarrow> bool" where
  "missing_required data =
     (\<not> truthy_opt (field data ''country'') \<or> \<not> truthy_opt (field data ''landmark'')
      \<or> \<not> truthy_opt (field data ''landscapeUrl''))"

definition lacks_fields :: "(string \<Rightarrow> jsval option) \<Rightarrow> string \<Rightarrow> bool" where
  "lacks_fields JSON_parse content =
     (case JSON_parse (trim (jsonStr content)) of
        None \<Rightarrow> False
      | Some data \<Rightarrow> data \<noteq> JNull \<and> missing_required data)"

text \<open>
  An answer and a stand-in for \<^verbatim>\<open>JSON.parse\<close> that knows this one text: an object with
  the three required fields only, whose photo URL is a relative path.
\<close>

definition example_answer :: string where
  "example_answer =
     ''{'' @ quoted ''country'' @ '':'' @ quoted ''Norway'' @ '','' @
     quoted ''landmark'' @ '':'' @ quoted ''North Cape'' @ '','' @
     quoted ''landscapeUrl'' @ '':'' @ quoted ''photos/cape.jpg'' @ ''}''"

definition example_parse :: "string \<Rightarrow> jsval option" where
  "example_parse s =
     (if s = example_answer
      then Some (JObj [(''country'', JStr ''Norway''), (''landmark'', JStr ''North Cape''),
                       (''landscapeUrl'', JStr ''photos/cape.jpg'')])
      else if s = ''{}'' then Some (JObj [])
      else None)"

text \<open>
  Two answers that are no JSON, on which the stand-in returns \<open>None\<close> as
  \<^verbatim>\<open>JSON.parse\<close> raises: the example answer between two remarks, and an object whose
  values are not quoted.
\<close>

definition example_chatty :: string where
  "example_chatty = ''Sure! '' @ example_answer @ '' hope this helps''"

definition example_loose :: string where
  "example_loose = ''{'' @ quoted ''country'' @ '': Norway, '' @ quoted ''landmark'' @ '': North Cape}''"

definition example_unquoted :: string where
  "example_unquoted = ''Here: '' @ example_loose"

text \<open>The destination that the parser builds from the example answer.\<close>

definition north_cape :: "jsval Location" where
  "north_cape =
     \<lparr> Location.country = JStr ''Norway'', countryZh = JStr ''Norway'', city = JStr [],
       landmark = JStr ''North Cape'', landmarkZh = JStr ''North Cape'', timezone = JStr ''UTC'',
       landscapeUrl = JStr ''https://images.unsplash.com/featured/?North%20Cape,Norway'' \<rparr>"

section \<open>Destination resolver (services/location.ts)\<close>

definition non_latin :: "char \<Rightarrow> bool" where
  \<comment> \<open>a character outside the ranges 0000-007F, 00C0-024F and 1E00-1EFF, among the code units 0..255\<close>
  "non_latin c = (128 \<le> (of_char c :: nat) \<and> (of_char c :: nat) < 192)"

function collapse_spaces :: "string \<Rightarrow> string" where
  \<comment> \<open>\<^verbatim>\<open>s.replace(/\s+/g, ' ')\<close>\<close>
  "collapse_spaces [] = []"
| "collapse_spaces (c # cs) =
     (if is_space c then CHR '' '' # collapse_spaces (dropWhile is_space cs)
      else c # collapse_spaces cs)"
  by pat_completeness auto
termination
  by (relation "measure length") (auto simp: le_imp_less_Suc length_dropWhile_le)

definition cleanQuery :: "string \<Rightarrow> string" where
  "cleanQuery q = trim (collapse_spaces (map (\<lambda>c. if non_latin c then CHR '' '' else c) q))"

text \<open>
  What one call of the resolver meets outside the plugin: whether the LLM service is
  there, the clock at the cooldown check and the clock in a failure branch, the outcome
  of creating the model and of invoking it, the two photo searches (which catch their
  own errors and return a URL or nothing), the random number of the catalog pick, and
  the room left on the call stack when the parser is entered. The prompt is not part of
  the embedding: any answer is possible for any prompt.
\<close>

datatype model_outcome = CreateThrows | NoModel | ModelReady
datatype invoke_outcome = InvokeThrows | Content string
datatype call = CreateChatModel string | Invoke | SearchPexels string | SearchUnsplash string

record World =
  chatluna :: bool
  now_start :: int
  now_failure :: int
  createChatModel :: model_outcome
  invoke :: invoke_outcome
  searchPexelsPhoto :: "string \<Rightarrow> string option"
  searchUnsplashPhoto :: "string \<Rightarrow> string option"
  random_static :: rat
  stack_depth :: nat

text \<open>
  \<open>getRandomStaticLocation\<close>: the catalog \<open>LOCATIONS\<close> (constants.ts) is a parameter, and
  \<open>r\<close> is the value of \<^verbatim>\<open>Math.random()\<close>. An index outside the array gives
  \<^verbatim>\<open>undefined\<close>, which is \<open>None\<close>.
\<close>

definition getRandomStaticLocation :: "'a list \<Rightarrow> rat \<Rightarrow> 'a option" where
  "getRandomStaticLocation LOCATIONS r =
     (let i = \<lfloor>r * of_nat (length LOCATIONS)\<rfloor>
      in if 0 \<le> i \<and> i < int (length LOCATIONS) then Some (LOCATIONS ! nat i) else None)"

text \<open>
  The search queries. A field is converted to a string where the source puts it into a
  template or hands it to \<^verbatim>\<open>replace\<close>, and \<open>cleanQuery(location.country)\<close> needs a
  country that is a string, since it calls \<^verbatim>\<open>replace\<close> on it; \<open>None\<close> is the TypeError
  otherwise. \<^verbatim>\<open>filter(Boolean)\<close> drops the empty queries.
\<close>

definition formatQuery :: "string \<Rightarrow> jsval Location \<Rightarrow> string option" where
  "formatQuery tmpl loc =
     (case (toString (landmark loc), toString (Location.country loc),
            toString (or_val (Some (city loc)) (JStr []))) of
        (Some l, Some c, Some ci) \<Rightarrow>
          Some (cleanQuery (trim (replace (replace (replace tmpl ''{landmark}'' l) ''{country}'' c)
                                    ''{city}'' ci)))
      | _ \<Rightarrow> None)"

definition searchQueries :: "'num Config \<Rightarrow> jsval Location \<Rightarrow> string list option" where
  "searchQueries config loc =
     (let template = (if imageSearchPrompt config \<noteq> [] then imageSearchPrompt config
                      else ''{landmark} {country} landscape'')
      in case (formatQuery template loc,
               toString (landmark loc), toString (Location.country loc),
               toString (city loc), Location.country loc) of
           (Some q1, Some l, Some c, Some ci, JStr cstr) \<Rightarrow>
             Some (filter (\<lambda>q. q \<noteq> [])
                     ([q1, cleanQuery (l @ '' '' @ c)]
                      @ (if truthy (city loc) then [cleanQuery (ci @ '' '' @ c)] else [])
                      @ [cleanQuery cstr]))
         | _ \<Rightarrow> None)"

text \<open>The loop over the queries: the found URL, if any, and the searches made.\<close>

fun searchLoop ::
  "'num Config \<Rightarrow> (string \<Rightarrow> string option) \<Rightarrow> (string \<Rightarrow> string option) \<Rightarrow> string list
     \<Rightarrow> string option \<times> call list" where
  "searchLoop config pexels unsplash [] = (None, [])"
| "searchLoop config pexels unsplash (query # queries) =
     (let p1 = (if pexelsApiKey config \<noteq> [] then pexels query else None);
          c1 = (if pexelsApiKey config \<noteq> [] then [SearchPexels query] else []);
          try2 = ((p1 = None \<or> p1 = Some []) \<and> unsplashAccessKey config \<noteq> []);
          p2 = (if try2 then unsplash query else p1);
          c2 = (if try2 then [SearchUnsplash query] else [])
      in if p2 \<noteq> None \<and> p2 \<noteq> Some [] then (p2, c1 @ c2)
         else (case searchLoop config pexels unsplash queries of (p, cs) \<Rightarrow> (p, c1 @ c2 @ cs)))"

text \<open>
  The result of one call: the destination (\<open>None\<close> for \<^verbatim>\<open>undefined\<close>, which only an empty
  catalog gives), the value of the module variable \<open>llmCooldownUntil\<close> after the call,
  and the calls made to the services, in order.
\<close>

record Resolved =
  destination :: "jsval Location option"
  cooldownUntil :: int
  calls :: "call list"

definition fallback :: "jsval Location list \<Rightarrow> 'w World_scheme \<Rightarrow> int \<Rightarrow> call list \<Rightarrow> Resolved" where
  \<comment> \<open>a return of the static pick that leaves the cooldown as it is\<close>
  "fallback LOCATIONS w cooldown cs =
     \<lparr> destination = getRandomStaticLocation LOCATIONS (random_static w),
       cooldownUntil = cooldown, calls = cs \<rparr>"

definition failure :: "jsval Location list \<Rightarrow> 'w World_scheme \<Rightarrow> int \<Rightarrow> int \<Rightarrow> call list \<Rightarrow> Resolved" where
  \<comment> \<open>the \<^verbatim>\<open>catch\<close> block and the branch of the missing model\<close>
  "failure LOCATIONS w cooldownMs cooldown cs =
     \<lparr> destination = getRandomStaticLocation LOCATIONS (random_static w),
       cooldownUntil = (if cooldownMs > 0 then now_failure w + cooldownMs else cooldown),
       calls = cs \<rparr>"

definition generateLocationWithLLM ::
  "jsval Location list \<Rightarrow> (string \<Rightarrow> jsval option) \<Rightarrow> 'num Config \<Rightarrow> 'w World_scheme \<Rightarrow> int \<Rightarrow> Resolved" where
  "generateLocationWithLLM LOCATIONS JSON_parse config w llmCooldownUntil =
     (if \<not> llmLocationEnabled config \<or> llmLocationModel config = [] \<or> \<not> chatluna w
      then fallback LOCATIONS w llmCooldownUntil []
      else
        let cooldownMs = (case llmFailureCooldownMs config of None \<Rightarrow> 0 | Some n \<Rightarrow> n)
        in if cooldownMs > 0 \<and> now_start w < llmCooldownUntil
           then fallback LOCATIONS w llmCooldownUntil []
           else
             (case createChatModel w of
                CreateThrows \<Rightarrow>
                  failure LOCATIONS w cooldownMs llmCooldownUntil
                    [CreateChatModel (llmLocationModel config)]
              | NoModel \<Rightarrow>
                  failure LOCATIONS w cooldownMs llmCooldownUntil
                    [CreateChatModel (llmLocationModel config)]
              | ModelReady \<Rightarrow>
                  (let cs = [CreateChatModel (llmLocationModel config), Invoke]
                   in case invoke w of
                        InvokeThrows \<Rightarrow> failure LOCATIONS w cooldownMs llmCooldownUntil cs
                      | Content content \<Rightarrow>
                          (case parseLocationResponse JSON_parse (stack_depth w) content of
                             Inl e \<Rightarrow> failure LOCATIONS w cooldownMs llmCooldownUntil cs
                           | Inr None \<Rightarrow> fallback LOCATIONS w llmCooldownUntil cs
                           | Inr (Some loc) \<Rightarrow>
                               (case (toString (landmarkZh loc), toString (landmark loc),
                                      toString (Location.countryZh loc)) of
                                  (Some lz, Some l, Some cz) \<Rightarrow>
                                    if unsplashAccessKey config \<noteq> [] \<or> pexelsApiKey config \<noteq> []
                                    then
                                      (case searchQueries config loc of
                                         None \<Rightarrow> failure LOCATIONS w cooldownMs 0 cs
                                       | Some queries \<Rightarrow>
                                           (case searchLoop config (searchPexelsPhoto w) (searchUnsplashPhoto w)
                                                   queries of
                                              (Some photoUrl, cs') \<Rightarrow>
                                                \<lparr> destination =
                                                    Some (loc \<lparr> landscapeUrl := JStr photoUrl \<rparr>),
                                                  cooldownUntil = 0, calls = cs @ cs' \<rparr>
                                            | (None, cs') \<Rightarrow>
                                                \<lparr> destination = Some loc,
                                                  cooldownUntil = 0, calls = cs @ cs' \<rparr>))
                                    else \<lparr> destination = Some loc, cooldownUntil = 0, calls = cs \<rparr>
                                | _ \<Rightarrow> failure LOCATIONS w cooldownMs 0 cs)))))"

text \<open>
  The preconditions under which a call attempts dynamic generation: the feature is
  enabled, a model is configured, the LLM service is there, and the call is not inside
  an active cooldown window.
\<close>

definition cooldownMs_of :: "'num Config \<Rightarrow> int" where
  "cooldownMs_of config = (case llmFailureCooldownMs config of None \<Rightarrow> 0 | Some n \<Rightarrow> n)"

definition attempts :: "'num Config \<Rightarrow> 'w World_scheme \<Rightarrow> int \<Rightarrow> bool" where
  "attempts config w llmCooldownUntil =
     (llmLocationEnabled config \<and> llmLocationModel config \<noteq> [] \<and> chatluna w
      \<and> \<not> (cooldownMs_of config > 0 \<and> now_start w < llmCooldownUntil))"

definition static_pick :: "jsval Location list \<Rightarrow> 'w World_scheme \<Rightarrow> jsval Location option" where
  "static_pick LOCATIONS w = getRandomStaticLocation LOCATIONS (random_static w)"

definition string_fields :: "jsval Location \<Rightarrow> bool" where
  \<comment> \<open>every field is a string, as the interface \<^verbatim>\<open>Location\<close> declares\<close>
  "string_fields loc =
     (case (Location.country loc, Location.countryZh loc, city loc, landmark loc, landmarkZh loc,
            Location.timezone loc, landscapeUrl loc) of
        (JStr a, JStr b, JStr c, JStr d, JStr e, JStr f, JStr g) \<Rightarrow> True
      | _ \<Rightarrow> False)"

text \<open>A catalog of two entries, and worlds for running the resolver.\<close>

definition example_location :: "string \<Rightarrow> string \<Rightarrow> jsval Location" where
  "example_location c l =
     \<lparr> Location.country = JStr c, countryZh = JStr c, city = JStr [], landmark = JStr l,
       landmarkZh = JStr l, timezone = JStr ''UTC'', landscapeUrl = JStr ''https://example.org/p.jpg'' \<rparr>"

definition example_catalog :: "jsval Location list" where
  "example_catalog = [example_location ''Japan'' ''Mount Fuji'', example_location ''Peru'' ''Machu Picchu'']"

definition example_world :: "int \<Rightarrow> model_outcome \<Rightarrow> invoke_outcome \<Rightarrow> World" where
  "example_world now m i =
     \<lparr> chatluna = True, now_start = now, now_failure = now + 2000, createChatModel = m, invoke = i,
       searchPexelsPhoto = (\<lambda>q. None), searchUnsplashPhoto = (\<lambda>q. None),
       random_static = 3 / 4, stack_depth = 8 \<rparr>"

text \<open>
  The exceptions that the \<^verbatim>\<open>try\<close> block can still raise after a successful parse: a
  field of the log line or of a search query has no string form, or the country handed
  to \<open>cleanQuery\<close> is not a string.
\<close>

definition raises_after_parse :: "'num Config \<Rightarrow> jsval Location \<Rightarrow> bool" where
  "raises_after_parse config loc =
     (toString (landmarkZh loc) = None \<or> toString (landmark loc) = None
      \<or> toString (Location.countryZh loc) = None
      \<or> ((unsplashAccessKey config \<noteq> [] \<or> pexelsApiKey config \<noteq> [])
          \<and> searchQueries config loc = None))"

section \<open>Travel orchestrator (services/travel.ts)\<close>

text \<open>
  What one travel meets besides the resolver's world: whether the AI image service and
  the storage service are there, the outcome of the image generation (it throws, or it
  returns the success flag and, if present, the URLs of the output assets, an asset
  without URL giving the empty string), the outcome of the card renderer (it throws, or
  returns the image bytes and a file name), the outcome of the upload (it throws, or
  returns the durable URL), and the clock at the insert. The table
  \<^verbatim>\<open>pig_travel_log\<close> is the list of its rows, and \<^verbatim>\<open>create\<close> appends a row.
\<close>

datatype aigc_outcome = AigcThrows | AigcResult bool "string list option"
datatype card_outcome = CardThrows | Card string string
datatype upload_outcome = UploadThrows | Uploaded string

record TravelWorld = World +
  mediaLuna :: bool
  generateByName :: aigc_outcome
  generateFootprintCard :: card_outcome
  chatluna_storage :: bool
  createTempFile :: upload_outcome
  now_insert :: int

record TravelState =
  llmCooldownUntil :: int
  pig_travel_log :: "jsval PigTravelLog list"

text \<open>The first statement: the destination and the cooldown timestamp after it.\<close>

definition resolveLocation ::
  "jsval Location list \<Rightarrow> (string \<Rightarrow> jsval option) \<Rightarrow> 'num Config \<Rightarrow> TravelWorld \<Rightarrow> int
     \<Rightarrow> jsval Location option \<times> int" where
  "resolveLocation LOCATIONS JSON_parse config w cooldown =
     (if llmLocationEnabled config \<and> chatluna w
      then (let R = generateLocationWithLLM LOCATIONS JSON_parse config w cooldown
            in (destination R, cooldownUntil R))
      else (getRandomStaticLocation LOCATIONS (random_static w), cooldown))"

text \<open>
  The message from the template. \<^verbatim>\<open>replace\<close> converts its second argument to a string
  first; \<open>None\<close> is the TypeError of a value that has no string form.
\<close>

definition formatMessage :: "string \<Rightarrow> jsval Location \<Rightarrow> string option" where
  "formatMessage template loc =
     (case (toString (or_val (Some (landmarkZh loc)) (landmark loc)),
            toString (or_val (Some (Location.countryZh loc)) (Location.country loc))) of
        (Some l, Some c) \<Rightarrow> Some (replace (replace template ''{landmark}'' l) ''{country}'' c)
      | _ \<Rightarrow> None)"

text \<open>
  The AI background: the URL, if one was produced, and the flag \<open>isAIGC\<close>. The log line
  and the prompt are built before the \<^verbatim>\<open>try\<close>, so a landmark or country without string
  form raises here. A successful result whose first asset has no URL leaves the flag
  set.
\<close>

definition aigcBackground ::
  "'num Config \<Rightarrow> TravelWorld \<Rightarrow> jsval Location \<Rightarrow> js_error + (string option \<times> bool)" where
  "aigcBackground config w loc =
     (if aigcEnabled config \<and> aigcChannel config \<noteq> [] \<and> mediaLuna w
      then
        (case (toString (landmark loc), toString (Location.country loc)) of
           (Some l, Some c) \<Rightarrow>
             (case generateByName w of
                AigcThrows \<Rightarrow> Inr (None, False)
              | AigcResult success output \<Rightarrow>
                  (case output of
                     Some (url # urls) \<Rightarrow>
                       if success then Inr (if url \<noteq> [] then Some url else None, True)
                       else Inr (None, False)
                   | _ \<Rightarrow> Inr (None, False)))
         | _ \<Rightarrow> Inl TypeError)
      else Inr (None, False))"

text \<open>The card and its upload: the image bytes and the durable URL, if any.\<close>

definition renderAndUpload :: "'num Config \<Rightarrow> TravelWorld \<Rightarrow> string option \<times> string option" where
  "renderAndUpload config w =
     (case generateFootprintCard w of
        CardThrows \<Rightarrow> (None, None)
      | Card buffer filename \<Rightarrow>
          (if useStorageService config \<and> chatluna_storage w
           then (case createTempFile w of
                   UploadThrows \<Rightarrow> (Some buffer, None)
                 | Uploaded url \<Rightarrow> (Some buffer, Some url))
           else (Some buffer, None)))"

text \<open>
  The block of the image mode: image bytes, durable URL and the flag. When no AI
  background was produced, the log line of the stock photo converts the landmark and
  the photo URL to strings, outside any \<^verbatim>\<open>try\<close>.
\<close>

definition imageStep ::
  "'num Config \<Rightarrow> TravelWorld \<Rightarrow> jsval Location
     \<Rightarrow> js_error + (string option \<times> string option \<times> bool)" where
  "imageStep config w loc =
     (if outputMode config = image_mode
      then
        (case aigcBackground config w loc of
           Inl e \<Rightarrow> Inl e
         | Inr (backgroundUrl, aigc) \<Rightarrow>
             if backgroundUrl = None
                \<and> (toString (landmark loc) = None \<or> toString (landscapeUrl loc) = None)
             then Inl TypeError
             else (case renderAndUpload config w of (buffer, url) \<Rightarrow> Inr (buffer, url, aigc)))
      else Inr (None, None, False))"

record Outcome =
  result :: "js_error + TravelResult"
  state :: TravelState

definition triggerTravelSequence ::
  "jsval Location list \<Rightarrow> (string \<Rightarrow> jsval option) \<Rightarrow> 'num Config \<Rightarrow> TravelWorld
     \<Rightarrow> UserInfo \<Rightarrow> string \<Rightarrow> string \<Rightarrow> TravelState \<Rightarrow> Outcome" where
  "triggerTravelSequence LOCATIONS JSON_parse config w userInfo plat gid s =
     (case resolveLocation LOCATIONS JSON_parse config w (llmCooldownUntil s) of
        (resolved, cooldown) \<Rightarrow>
          (let s1 = s \<lparr> llmCooldownUntil := cooldown \<rparr>
           in case resolved of
                None \<Rightarrow> \<lparr> result = Inl TypeError, state = s1 \<rparr>
              | Some loc \<Rightarrow>
                  (case formatMessage (travelMessageTemplate config) loc of
                     None \<Rightarrow> \<lparr> result = Inl TypeError, state = s1 \<rparr>
                   | Some message \<Rightarrow>
                       (case imageStep config w loc of
                          Inl e \<Rightarrow> \<lparr> result = Inl e, state = s1 \<rparr>
                        | Inr (buffer, url, aigc) \<Rightarrow>
                            \<lparr> result = Inr \<lparr> TravelResult.location = loc, imageBuffer = buffer,
                                             imageUrl = url, isAIGC = aigc, msg = message \<rparr>,
                              state = s1 \<lparr> pig_travel_log := pig_travel_log s1 @
                                [\<lparr> PigTravelLog.userId = UserInfo.userId userInfo,
                                   platform = plat, guildId = gid, timestamp = now_insert w,
                                   country = Location.country loc,
                                   countryZh = or_val (Some (Location.countryZh loc)) (Location.country loc),
                                   location = landmark loc,
                                   locationZh = or_val (Some (landmarkZh loc)) (landmark loc),
                                   timezone = or_val (Some (Location.timezone loc)) (JStr ''UTC''),
                                   imagePath = (case url of None \<Rightarrow> [] | Some u \<Rightarrow> u),
                                   isAIGC = aigc \<rparr>] \<rparr> \<rparr>))))"






section \<open>Sunrise lookup (services/sunrise.ts) and its callers (index.ts)\<close>

text \<open>
  The answer of the HTTP request: it throws, or it is an object with a status and, if
  present, the two instants of its results. \<open>String\<close> prints a number as a template
  literal does.
\<close>

datatype http_outcome = HttpThrows | HttpData string "(int \<times> int) option"
datatype sunrise_error = RequestFailed | NotOK | NoResults

record SunriseInfo =
  sunrise :: int
  sunset :: int

definition sunriseUrl :: "('num \<Rightarrow> string) \<Rightarrow> 'num \<Rightarrow> 'num \<Rightarrow> string \<Rightarrow> string" where
  "sunriseUrl String lat lng date =
     ''https://api.sunrise-sunset.org/json?lat='' @ String lat @ ''&lng='' @ String lng
       @ ''&formatted=0&date='' @ date"

definition getSunriseInfo ::
  "(string \<Rightarrow> http_outcome) \<Rightarrow> ('num \<Rightarrow> string) \<Rightarrow> 'num \<Rightarrow> 'num \<Rightarrow> string
     \<Rightarrow> sunrise_error + SunriseInfo" where
  "getSunriseInfo http_get String lat lng date =
     (case http_get (sunriseUrl String lat lng date) of
        HttpThrows \<Rightarrow> Inl RequestFailed
      | HttpData status results \<Rightarrow>
          if status \<noteq> ''OK'' then Inl NotOK
          else (case results of
                  None \<Rightarrow> Inl NoResults
                | Some (up, down) \<Rightarrow> Inr \<lparr> sunrise = up, sunset = down \<rparr>))"

text \<open>
  The request of \<open>getTodaySunrise\<close> when its cache does not answer, and the request of
  the wake-up detection, which prefers the coordinates of the user's row.
\<close>

definition todaySunrise ::
  "(string \<Rightarrow> http_outcome) \<Rightarrow> ('num \<Rightarrow> string) \<Rightarrow> 'num Config \<Rightarrow> sunrise_error + SunriseInfo" where
  "todaySunrise http_get String config =
     getSunriseInfo http_get String (defaultLat config) (defaultLng config) ''today''"

definition wakeUpSunrise ::
  "(string \<Rightarrow> http_outcome) \<Rightarrow> ('num \<Rightarrow> string) \<Rightarrow> 'num Config \<Rightarrow> 'num option \<Rightarrow> 'num option
     \<Rightarrow> sunrise_error + SunriseInfo" where
  "wakeUpSunrise http_get String config latitude longitude =
     getSunriseInfo http_get String
       (case latitude of None \<Rightarrow> defaultLat config | Some lat \<Rightarrow> lat)
       (case longitude of None \<Rightarrow> defaultLng config | Some lng \<Rightarrow> lng) ''today''"

text \<open>A server for running the lookup: it knows the request of the default coordinates.\<close>

definition example_http :: "string \<Rightarrow> http_outcome" where
  "example_http url =
     (if url = ''https://api.sunrise-sunset.org/json?lat=30&lng=120&formatted=0&date=today''
      then HttpData ''OK'' (Some (21600000, 64800000))
      else HttpThrows)"

section \<open>The example configuration\<close>

lemma example_config_fields:
  "sunriseApi example_config = None"
  "logPath example_config = None"
  "outputMode example_config = image_mode"
  "useStorageService example_config = True"
  "travelMessageTemplate example_config = ''went to {landmark}, {country}!''"
  "aigcEnabled example_config = True"
  "aigcChannel example_config = ''pig''"
  "aigcPrompt example_config = ''a pig at {landmark} in {country}''"
  "llmLocationEnabled example_config = True"
  "llmLocationModel example_config = ''gemini-flash''"
  "llmLocationCustomContext example_config = []"
  "llmFailureCooldownMs example_config = Some 300000"
  "imageSearchPrompt example_config = ''{landmark} {country} landscape''"
  "unsplashAccessKey example_config = []"
  "pexelsApiKey example_config = []"
  "nightOwlEnabled example_config = True"
  "nightOwlStartHour example_config = Some 0"
  "nightOwlEndHour example_config = Some 5"
  "debug example_config = False"
  "defaultLat example_config = 30"
  "defaultLng example_config = 120"
  by (simp_all add: example_config_def)


section \<open>Properties of the sunrise-band calculator\<close>

lemma beijingHour_value:
  "beijingHour (getSunriseTimezoneHint now) = (now div 3600000 + 8) mod 24"
proof -
  have "(now + 8 * 60 * 60 * 1000) div 3600000 = now div 3600000 + 8"
    by simp
  then show ?thesis
    by (simp add: getSunriseTimezoneHint_def getUTCHours_def Let_def)
qed

lemma sunrise_fields:
  "idealOffset (getSunriseTimezoneHint now) = 6 - beijingHour (getSunriseTimezoneHint now) + 8"
  "minOffset (getSunriseTimezoneHint now) = normalizeOffset (idealOffset (getSunriseTimezoneHint now) - 1)"
  "maxOffset (getSunriseTimezoneHint now) = normalizeOffset (idealOffset (getSunriseTimezoneHint now) + 1)"
  "utcOffsetRange (getSunriseTimezoneHint now) =
     (formatOffset (minOffset (getSunriseTimezoneHint now)),
      formatOffset (maxOffset (getSunriseTimezoneHint now)))"
  by (simp_all add: getSunriseTimezoneHint_def Let_def)

text \<open>
  C5. Let \<open>h\<close> be the anchor-zone hour of the instant \<open>now\<close>: the hour of the day eight
  hours ahead of UTC, \<open>(now div 3600000 + 8) mod 24\<close> for an instant in milliseconds. Then
  the calculator returns \<open>h\<close> as its hour, which lies in 0..23; the ideal offset is
  \<open>6 - h + 8\<close> and already lies in [-12, 14]; the lower bound is \<open>ideal - 1\<close> and the upper
  bound \<open>ideal + 1\<close>, each with 24 added when it is below -12 and 24 subtracted when it is
  above 14, which makes the lower bound \<open>13 - h\<close> and the upper bound \<open>15 - h\<close>, except
  at \<open>h = 0\<close>, where the upper bound 15 becomes -9; both bounds lie in [-12, 14]; the
  band is 2 wide modulo 24 around the ideal offset; and the two bounds are written with
  the prefix \<^verbatim>\<open>UTC+\<close> when they are not negative and \<^verbatim>\<open>UTC\<close> when they are.
\<close>

theorem sunrise_band_range:
  assumes "h = (now div 3600000 + 8) mod 24"
  shows "(let r = getSunriseTimezoneHint now;
              lo = idealOffset r - 1;
              hi = idealOffset r + 1
          in beijingHour r = h \<and> 0 \<le> h \<and> h \<le> 23
           \<and> idealOffset r = 6 - h + 8
           \<and> - 12 \<le> idealOffset r \<and> idealOffset r \<le> 14
           \<and> minOffset r = (if lo < - 12 then lo + 24 else if lo > 14 then lo - 24 else lo)
           \<and> maxOffset r = (if hi < - 12 then hi + 24 else if hi > 14 then hi - 24 else hi)
           \<and> minOffset r = 13 - h
           \<and> maxOffset r = (if h = 0 then - 9 else 15 - h)
           \<and> - 12 \<le> minOffset r \<and> minOffset r \<le> 14
           \<and> - 12 \<le> maxOffset r \<and> maxOffset r \<le> 14
           \<and> (minOffset r - lo) mod 24 = 0
           \<and> (maxOffset r - hi) mod 24 = 0
           \<and> (maxOffset r - minOffset r) mod 24 = 2
           \<and> utcOffsetRange r =
               ((if 0 \<le> minOffset r then ''UTC+'' else ''UTC'') @ show_int (minOffset r),
                (if 0 \<le> maxOffset r then ''UTC+'' else ''UTC'') @ show_int (maxOffset r)))"
proof -
  define r where "r = getSunriseTimezoneHint now"
  have b: "beijingHour r = h"
    by (simp add: r_def assms beijingHour_value)
  have h: "0 \<le> h" "h \<le> 23"
    by (simp_all add: assms)
  have i: "idealOffset r = 6 - h + 8"
    using b by (simp add: r_def sunrise_fields)
  have mn: "minOffset r = normalizeOffset (idealOffset r - 1)"
    by (simp add: r_def sunrise_fields)
  have mx: "maxOffset r = normalizeOffset (idealOffset r + 1)"
    by (simp add: r_def sunrise_fields)
  have mn': "minOffset r = 13 - h"
    using h i by (simp add: mn normalizeOffset_def)
  have mx': "maxOffset r = (if h = 0 then - 9 else 15 - h)"
    using h i by (simp add: mx normalizeOffset_def)
  have w: "(maxOffset r - minOffset r) mod 24 = 2"
    using h by (simp add: mn' mx')
  have c: "(maxOffset r - (idealOffset r + 1)) mod 24 = 0"
    using h i by (simp add: mx')
  have u: "utcOffsetRange r =
               ((if 0 \<le> minOffset r then ''UTC+'' else ''UTC'') @ show_int (minOffset r),
                (if 0 \<le> maxOffset r then ''UTC+'' else ''UTC'') @ show_int (maxOffset r))"
    by (simp add: r_def sunrise_fields formatOffset_def)
  have "beijingHour r = h \<and> 0 \<le> h \<and> h \<le> 23
           \<and> idealOffset r = 6 - h + 8
           \<and> - 12 \<le> idealOffset r \<and> idealOffset r \<le> 14
           \<and> minOffset r = (if idealOffset r - 1 < - 12 then idealOffset r - 1 + 24
                             else if idealOffset r - 1 > 14 then idealOffset r - 1 - 24
                             else idealOffset r - 1)
           \<and> maxOffset r = (if idealOffset r + 1 < - 12 then idealOffset r + 1 + 24
                             else if idealOffset r + 1 > 14 then idealOffset r + 1 - 24
                             else idealOffset r + 1)
           \<and> minOffset r = 13 - h
           \<and> maxOffset r = (if h = 0 then - 9 else 15 - h)
           \<and> - 12 \<le> minOffset r \<and> minOffset r \<le> 14
           \<and> - 12 \<le> maxOffset r \<and> maxOffset r \<le> 14
           \<and> (minOffset r - (idealOffset r - 1)) mod 24 = 0
           \<and> (maxOffset r - (idealOffset r + 1)) mod 24 = 0
           \<and> (maxOffset r - minOffset r) mod 24 = 2
           \<and> utcOffsetRange r =
               ((if 0 \<le> minOffset r then ''UTC+'' else ''UTC'') @ show_int (minOffset r),
                (if 0 \<le> maxOffset r then ''UTC+'' else ''UTC'') @ show_int (maxOffset r))"
    using b h i w c u mn [unfolded normalizeOffset_def] mx [unfolded normalizeOffset_def]
    by (simp add: mn' mx')
  then show ?thesis
    unfolding r_def Let_def .
qed

text \<open>
  The calculator at 16:00 UTC, midnight in the anchor zone: the ideal offset is 14, the
  lower bound 13, and the upper bound 15 is normalised to -9. At 00:00 UTC, 08:00 in the
  anchor zone, the band is 5..7.
\<close>

theorem sunrise_band_range_witness:
  "(0::int) = (57600000 div 3600000 + 8) mod 24
   \<and> beijingHour (getSunriseTimezoneHint 57600000) = 0
   \<and> idealOffset (getSunriseTimezoneHint 57600000) = 14
   \<and> minOffset (getSunriseTimezoneHint 57600000) = 13
   \<and> maxOffset (getSunriseTimezoneHint 57600000) = - 9
   \<and> utcOffsetRange (getSunriseTimezoneHint 57600000) = (''UTC+13'', ''UTC-9'')
   \<and> (8::int) = (0 div 3600000 + 8) mod 24
   \<and> minOffset (getSunriseTimezoneHint 0) = 5
   \<and> maxOffset (getSunriseTimezoneHint 0) = 7
   \<and> utcOffsetRange (getSunriseTimezoneHint 0) = (''UTC+5'', ''UTC+7'')"
proof -
  have h0: "(0::int) = (57600000 div 3600000 + 8) mod 24"
    by simp
  have h8: "(8::int) = (0 div 3600000 + 8) mod 24"
    by simp
  have s: "show_int 13 = ''13''" "show_int (- 9) = ''-9''" "show_int 5 = ''5''" "show_int 7 = ''7''"
    by (simp_all add: show_int_def show_nat.simps)
  note a = sunrise_band_range [OF h0, unfolded Let_def]
  note b = sunrise_band_range [OF h8, unfolded Let_def]
  from a b h0 h8 show ?thesis
    by (simp add: s)
qed

section \<open>Properties of the message statistics and night-owl middleware\<close>

lemma statsMiddleware_skip:
  "\<not> counted session \<Longrightarrow> statsMiddleware tz config now session db = db"
  by (auto simp: statsMiddleware_def counted_def Let_def)

lemma statsMiddleware_other_key:
  "k \<noteq> session_key session \<Longrightarrow> statsMiddleware tz config now session db k = db k"
  by (auto simp: statsMiddleware_def session_key_def Let_def)

lemma statsMiddleware_owl_count:
  "counted session \<Longrightarrow>
   owl_count (statsMiddleware tz config now session db) (session_key session) =
     owl_count db (session_key session) +
       (if nightOwlEnabled config \<and> in_window tz config now
           \<and> \<not> alreadyRecordedToday tz now (owl_date db (session_key session))
        then 1 else 0)"
  by (auto simp: statsMiddleware_def counted_def Let_def owl_count_def owl_date_def
        session_key_def in_window_def initial_row_def split: option.splits)

lemma statsMiddleware_owl_date:
  "counted session \<Longrightarrow>
   owl_date (statsMiddleware tz config now session db) (session_key session) =
     (if nightOwlEnabled config \<and> in_window tz config now
         \<and> \<not> alreadyRecordedToday tz now (owl_date db (session_key session))
      then Some now else owl_date db (session_key session))"
  by (auto simp: statsMiddleware_def counted_def Let_def owl_date_def
        session_key_def in_window_def initial_row_def split: option.splits)

lemma statsMiddleware_total_count:
  "counted session \<Longrightarrow>
   total_count (statsMiddleware tz config now session db) (session_key session) =
     total_count db (session_key session) + 1"
  by (auto simp: statsMiddleware_def counted_def Let_def total_count_def
        session_key_def initial_row_def split: option.splits)

lemma statsMiddleware_night_count:
  "counted session \<Longrightarrow>
   night_count (statsMiddleware tz config now session db) (session_key session) =
     night_count db (session_key session) + (if in_window tz config now then 1 else 0)"
  by (auto simp: statsMiddleware_def counted_def Let_def night_count_def
        session_key_def in_window_def initial_row_def split: option.splits)

lemma statsMiddleware_hour_count:
  "counted session \<Longrightarrow>
   hour_count (statsMiddleware tz config now session db) (session_key session) h =
     hour_count db (session_key session) h + (if h = getHours tz now then 1 else 0)"
  by (auto simp: statsMiddleware_def counted_def Let_def hour_count_def
        session_key_def initial_row_def split: option.splits)

lemma day_inv_step:
  assumes inv: "day_inv tz d c k db"
    and day: "session_key session = k \<Longrightarrow> dateOnly tz now = d"
  shows "day_inv tz d c k (statsMiddleware tz config now session db)"
proof (cases "counted session \<and> session_key session = k")
  case False
  then have "statsMiddleware tz config now session db k = db k"
    using statsMiddleware_skip [of session tz config now db]
      statsMiddleware_other_key [of k session tz config now db] by auto
  then show ?thesis
    using inv by (simp add: day_inv_def owl_count_def owl_date_def)
next
  case True
  then have c: "counted session" and k: "session_key session = k" by simp_all
  have d: "dateOnly tz now = d" using day k by simp
  show ?thesis
    using inv statsMiddleware_owl_count [OF c, of tz config now db]
      statsMiddleware_owl_date [OF c, of tz config now db] d
    by (auto simp: day_inv_def k alreadyRecordedToday_def split: option.splits if_splits)
qed

lemma day_inv_all:
  "day_inv tz d c k db \<Longrightarrow>
   (\<forall>(now, session) \<in> set ms. session_key session = k \<longrightarrow> dateOnly tz now = d) \<Longrightarrow>
   day_inv tz d c k (statsMiddleware_all tz config ms db)"
proof (induction ms arbitrary: db)
  case Nil
  then show ?case by simp
next
  case (Cons m ms)
  obtain now session where m: "m = (now, session)" by (cases m)
  have "day_inv tz d c k (statsMiddleware tz config now session db)"
    using Cons.prems m by (intro day_inv_step) auto
  then show ?case
    using Cons.IH Cons.prems(2) m by simp
qed

lemma step_counts_mono:
  "owl_count db k \<le> owl_count (statsMiddleware tz config now session db) k
   \<and> total_count db k \<le> total_count (statsMiddleware tz config now session db) k
   \<and> night_count db k \<le> night_count (statsMiddleware tz config now session db) k
   \<and> hour_count db k h \<le> hour_count (statsMiddleware tz config now session db) k h"
proof (cases "counted session \<and> session_key session = k")
  case False
  then have "statsMiddleware tz config now session db k = db k"
    using statsMiddleware_skip [of session tz config now db]
      statsMiddleware_other_key [of k session tz config now db] by auto
  then show ?thesis
    by (simp add: owl_count_def total_count_def night_count_def hour_count_def)
next
  case True
  then have c: "counted session" and k: "session_key session = k" by simp_all
  show ?thesis
    using statsMiddleware_owl_count [OF c, of tz config now db]
      statsMiddleware_total_count [OF c, of tz config now db]
      statsMiddleware_night_count [OF c, of tz config now db]
      statsMiddleware_hour_count [OF c, of tz config now db h]
    by (simp add: k)
qed

text \<open>
  C10. One message: the night-owl counter and date of the sender's row either both keep
  their values, or the counter grows by one and the date becomes the instant of the
  message, and this happens only for a counted message inside the night-owl window,
  with detection enabled, whose row has no recorded date on the message's local calendar
  day; the total, the night and the hourly counters never decrease. Several messages:
  when every message of a key falls on one local calendar day, that key's night-owl
  counter grows by at most one over all of them.
\<close>

theorem night_owl_once_per_day:
  "(let db' = statsMiddleware tz config now session db; k = session_key session in
      (owl_count db' k = owl_count db k \<and> owl_date db' k = owl_date db k
       \<or> owl_count db' k = owl_count db k + 1 \<and> owl_date db' k = Some now
          \<and> counted session \<and> nightOwlEnabled config \<and> in_window tz config now
          \<and> \<not> alreadyRecordedToday tz now (owl_date db k))
    \<and> total_count db k \<le> total_count db' k
    \<and> night_count db k \<le> night_count db' k
    \<and> (\<forall>h. hour_count db k h \<le> hour_count db' k h))
   \<and> ((\<forall>(t, s) \<in> set ms. session_key s = key \<longrightarrow> dateOnly tz t = d)
        \<longrightarrow> owl_count (statsMiddleware_all tz config ms db) key \<le> owl_count db key + 1)"
proof -
  define k where "k = session_key session"
  define db' where "db' = statsMiddleware tz config now session db"
  have owl: "owl_count db' k = owl_count db k \<and> owl_date db' k = owl_date db k
       \<or> owl_count db' k = owl_count db k + 1 \<and> owl_date db' k = Some now
          \<and> counted session \<and> nightOwlEnabled config \<and> in_window tz config now
          \<and> \<not> alreadyRecordedToday tz now (owl_date db k)"
  proof (cases "counted session")
    case False
    then show ?thesis
      using statsMiddleware_skip [of session tz config now db] by (simp add: db'_def)
  next
    case True
    show ?thesis
      using statsMiddleware_owl_count [OF True, of tz config now db]
        statsMiddleware_owl_date [OF True, of tz config now db] True
      by (simp add: db'_def k_def)
  qed
  have mono: "total_count db k \<le> total_count db' k"
    "night_count db k \<le> night_count db' k"
    "\<forall>h. hour_count db k h \<le> hour_count db' k h"
    using step_counts_mono [of db k tz config now session] by (simp_all add: db'_def)
  have day: "(\<forall>(t, s) \<in> set ms. session_key s = key \<longrightarrow> dateOnly tz t = d)
        \<longrightarrow> owl_count (statsMiddleware_all tz config ms db) key \<le> owl_count db key + 1"
  proof
    assume a: "\<forall>(t, s) \<in> set ms. session_key s = key \<longrightarrow> dateOnly tz t = d"
    have "day_inv tz d (owl_count db key) key db"
      by (simp add: day_inv_def)
    then have "day_inv tz d (owl_count db key) key (statsMiddleware_all tz config ms db)"
      using a by (rule day_inv_all)
    then show "owl_count (statsMiddleware_all tz config ms db) key \<le> owl_count db key + 1"
      by (auto simp: day_inv_def)
  qed
  show ?thesis
    using owl mono day unfolding Let_def k_def db'_def by blast
qed

text \<open>
  Two messages of one user at 01:00 and 02:00 of the same day (host zone UTC), on an
  empty table: the first raises the night-owl counter to 1, the second leaves it there.
\<close>

theorem night_owl_once_per_day_witness:
  "dateOnly (\<lambda>t. 0) 3600000 = 0 \<and> dateOnly (\<lambda>t. 0) 7200000 = 0
   \<and> owl_count (statsMiddleware (\<lambda>t. 0) example_config 3600000
         \<lparr> session_userId = ''u1'', session_platform = ''qq'', session_guildId = ''g1'',
           session_content = ''hi'', session_elements = None \<rparr> Map.empty)
         (''qq'', ''u1'', ''g1'') = 1
   \<and> owl_count (statsMiddleware_all (\<lambda>t. 0) example_config
         [(3600000, \<lparr> session_userId = ''u1'', session_platform = ''qq'', session_guildId = ''g1'',
              session_content = ''hi'', session_elements = None \<rparr>),
          (7200000, \<lparr> session_userId = ''u1'', session_platform = ''qq'', session_guildId = ''g1'',
              session_content = ''again'', session_elements = None \<rparr>)] Map.empty)
         (''qq'', ''u1'', ''g1'') \<le> 1"
  using night_owl_once_per_day [of "\<lambda>t. 0" example_config 3600000
      "\<lparr> session_userId = ''u1'', session_platform = ''qq'', session_guildId = ''g1'',
         session_content = ''hi'', session_elements = None \<rparr>" Map.empty
      "[(3600000, \<lparr> session_userId = ''u1'', session_platform = ''qq'', session_guildId = ''g1'',
              session_content = ''hi'', session_elements = None \<rparr>),
        (7200000, \<lparr> session_userId = ''u1'', session_platform = ''qq'', session_guildId = ''g1'',
              session_content = ''again'', session_elements = None \<rparr>)]"
      "(''qq'', ''u1'', ''g1'')" 0]
  by (simp add: Let_def session_key_def dateOnly_def owl_count_def owl_date_def counted_def
        in_window_def isNightOwlTime_def getHours_def alreadyRecordedToday_def
        statsMiddleware_def initial_row_def example_config_fields)

section \<open>Properties of the leaderboard ranking\<close>

lemma insert_sorted_insort:
  "insert_sorted compare_score x ys = insort_key (\<lambda>e. - int (score e)) x ys"
  by (induction ys) (auto simp: compare_score_def)

lemma array_sort_sort_key:
  "array_sort compare_score xs = sort_key (\<lambda>e. - int (score e)) xs"
proof -
  have "insert_sorted compare_score = insort_key (\<lambda>e. - int (score e))"
    by (intro ext) (rule insert_sorted_insort)
  then show ?thesis by (simp add: array_sort_def sort_key_def)
qed

lemma array_sort_mset: "mset (array_sort compare_score xs) = mset xs"
  by (simp add: array_sort_sort_key)

lemma array_sort_descending:
  "sorted_wrt (\<lambda>a b. score b \<le> score a) (array_sort compare_score xs)"
proof -
  have "sorted (map (\<lambda>e. - int (score e)) (sort_key (\<lambda>e. - int (score e)) xs))"
    by (rule sorted_sort_key)
  then show ?thesis
    by (simp add: array_sort_sort_key sorted_map)
qed

lemma array_sort_stable:
  "filter (\<lambda>e. score e = s) (array_sort compare_score xs) = filter (\<lambda>e. score e = s) xs"
proof -
  have "filter (\<lambda>e. - int (score e) = - int s) (sort_key (\<lambda>e. - int (score e)) xs)
      = filter (\<lambda>e. - int (score e) = - int s) xs"
    by (rule sort_key_stable)
  then show ?thesis by (simp add: array_sort_sort_key)
qed

lemma first_seen_Nil [simp]: "first_seen [] = []"
  by (simp add: first_seen_def)

lemma first_seen_snoc:
  "first_seen (xs @ [x]) = (if x \<in> set xs then first_seen xs else first_seen xs @ [x])"
  by (simp add: first_seen_def)

lemma first_seen_single [simp]: "first_seen [x] = [x]"
  by (simp add: first_seen_def)

lemma set_first_seen [simp]: "set (first_seen xs) = set xs"
  by (simp add: first_seen_def)

lemma distinct_first_seen [simp]: "distinct (first_seen xs)"
  by (simp add: first_seen_def)

lemma set_add_first_seen: "set_add (first_seen ys) x = first_seen (ys @ [x])"
  by (simp add: set_add_def first_seen_snoc)

lemma map_of_map_set: "map_of (map_set m k v) = (map_of m)(k \<mapsto> v)"
  by (induction m) (auto simp: fun_eq_iff)

lemma keys_map_set:
  "map fst (map_set m k v) = (if k \<in> set (map fst m) then map fst m else map fst m @ [k])"
  by (induction m) auto

lemma trips_of_snoc:
  "trips_of u (logs @ [l]) =
     (if PigTravelLog.userId l = u then trips_of u logs @ [l] else trips_of u logs)"
  by (simp add: trips_of_def)

lemma count_log_keys:
  "map fst (count_log getISO l S) =
     (if PigTravelLog.userId l \<in> set (map fst S) then map fst S else map fst S @ [PigTravelLog.userId l])"
  by (auto simp: count_log_def Let_def map_has_def keys_map_set map_of_map_set
        map_of_eq_None_iff split: option.splits)

lemma count_log_map_of:
  "map_of (count_log getISO l S) =
     (map_of S)(PigTravelLog.userId l \<mapsto>
        (case map_of S (PigTravelLog.userId l) of
           None \<Rightarrow> \<lparr> UserStat.tripCount = 1, countries = [countryKey getISO l] \<rparr>
         | Some st \<Rightarrow> st \<lparr> UserStat.tripCount := UserStat.tripCount st + 1,
                           countries := set_add (countries st) (countryKey getISO l) \<rparr>))"
  by (auto simp: count_log_def Let_def map_has_def map_of_map_set set_add_def fun_eq_iff
        split: option.splits)

lemma trips_of_empty_iff:
  "u \<notin> set (map PigTravelLog.userId logs) \<Longrightarrow> trips_of u logs = []"
  by (auto simp: trips_of_def filter_empty_conv)

lemma stats_inv_step:
  assumes "stats_inv getISO logs S"
  shows "stats_inv getISO (logs @ [l]) (count_log getISO l S)"
proof -
  have keys: "map fst S = first_seen (map PigTravelLog.userId logs)"
    and vals: "\<And>u st. map_of S u = Some st \<Longrightarrow>
        UserStat.tripCount st = length (trips_of u logs) \<and>
        countries st = first_seen (map (countryKey getISO) (trips_of u logs))"
    using assms by (auto simp: stats_inv_def)
  have k: "map fst (count_log getISO l S) = first_seen (map PigTravelLog.userId (logs @ [l]))"
    by (simp add: count_log_keys keys first_seen_snoc)
  have v: "UserStat.tripCount st = length (trips_of u (logs @ [l])) \<and>
        countries st = first_seen (map (countryKey getISO) (trips_of u (logs @ [l])))"
    if m: "map_of (count_log getISO l S) u = Some st" for u st
  proof (cases "u = PigTravelLog.userId l")
    case False
    then show ?thesis using m vals [of u st] by (auto simp: count_log_map_of trips_of_snoc)
  next
    case True
    show ?thesis
    proof (cases "map_of S u")
      case None
      then have "u \<notin> set (map fst S)" by (simp add: map_of_eq_None_iff)
      then have "trips_of u logs = []"
        using keys trips_of_empty_iff [of u logs] by simp
      then show ?thesis using m True None
        by (auto simp: count_log_map_of trips_of_snoc first_seen_snoc)
    next
      case (Some st0)
      then show ?thesis using m True vals [OF Some]
        by (auto simp: count_log_map_of trips_of_snoc set_add_first_seen)
    qed
  qed
  show ?thesis unfolding stats_inv_def using k v by blast
qed

lemma stats_inv_fold: "stats_inv getISO logs (fold (count_log getISO) logs [])"
proof (induction logs rule: rev_induct)
  case Nil
  show ?case by (simp add: stats_inv_def)
next
  case (snoc l logs)
  then show ?case using stats_inv_step by simp
qed

lemma card_first_seen: "length (first_seen xs) = card (set xs)"
  by (metis distinct_card distinct_first_seen set_first_seen)

lemma leaderboard_entries_keys:
  "map PigLeaderboardEntry.userId (leaderboard_entries getISO logs) = first_seen (map PigTravelLog.userId logs)"
proof -
  have "map PigLeaderboardEntry.userId (leaderboard_entries getISO logs) = map fst (fold (count_log getISO) logs [])"
    by (simp add: leaderboard_entries_def make_entry_def Let_def comp_def)
  then show ?thesis using stats_inv_fold [of getISO logs] by (simp add: stats_inv_def)
qed

lemma leaderboard_entries_score:
  assumes "e \<in> set (leaderboard_entries getISO logs)"
  shows "tripCount e = length (trips_of (PigLeaderboardEntry.userId e) logs)
       \<and> countryCount e = card (countryKey getISO ` set (trips_of (PigLeaderboardEntry.userId e) logs))
       \<and> score e = tripCount e + 2 * countryCount e"
proof -
  let ?S = "fold (count_log getISO) logs []"
  obtain u st where p: "(u, st) \<in> set ?S" and e: "e = make_entry (u, st)"
    using assms by (auto simp: leaderboard_entries_def)
  have inv: "stats_inv getISO logs ?S" by (rule stats_inv_fold)
  then have "distinct (map fst ?S)" by (simp add: stats_inv_def)
  then have "map_of ?S u = Some st" using p by simp
  then have "UserStat.tripCount st = length (trips_of u logs)"
    "countries st = first_seen (map (countryKey getISO) (trips_of u logs))"
    using inv by (auto simp: stats_inv_def)
  then show ?thesis
    by (simp add: e make_entry_def Let_def card_first_seen)
qed

lemma slice0_take: "0 \<le> limit \<Longrightarrow> slice0 xs limit = take (nat limit) xs"
  by (auto simp: slice0_def Let_def min_def)

lemma countryKey_lookup:
  "countryKey getISO row =
     (let a = getISO (PigTravelLog.country row); b = getISO (PigTravelLog.countryZh row)
      in if a \<noteq> None \<and> a \<noteq> Some [] then the a
         else if b \<noteq> None \<and> b \<noteq> Some [] then the b
         else PigTravelLog.country row)"
  by (simp add: countryKey_def or_else_def or_string_def Let_def split: option.splits)

text \<open>
  C7. For a limit \<open>N \<ge> 0\<close>: the leaderboard is the first \<open>N\<close> entries of the ranked
  list, so it has at most \<open>N\<close> entries; there is one entry per user of the guild's rows,
  created in the order in which the users first appear; the ranked list is a permutation
  of these entries; every entry has the number of the user's rows as trip count \<open>t\<close>, the
  number of distinct canonical countries of these rows as country count \<open>c\<close>, and the
  score \<open>t + 2 * c\<close>; the ranked list is sorted by descending score; and entries of equal
  score stand in the order in which they were created. The canonical country of a row is
  the ISO code that the lookup gives for the country name, when it gives one that is not
  empty; else the ISO code that the lookup gives for the localized name, when it gives
  one that is not empty; else the raw country string.
\<close>

theorem leaderboard_ranking:
  "0 \<le> limit \<Longrightarrow>
   (let logs = guild_logs table gid plat;
        entries = leaderboard_entries getISO logs;
        ranked = array_sort compare_score entries;
        canonical = (\<lambda>row.
           let a = getISO (PigTravelLog.country row); b = getISO (PigTravelLog.countryZh row)
           in if a \<noteq> None \<and> a \<noteq> Some [] then the a
              else if b \<noteq> None \<and> b \<noteq> Some [] then the b
              else PigTravelLog.country row)
    in getPigLeaderboard getISO table gid plat limit = take (nat limit) ranked
     \<and> length (getPigLeaderboard getISO table gid plat limit) \<le> nat limit
     \<and> map PigLeaderboardEntry.userId entries = first_seen (map PigTravelLog.userId logs)
     \<and> mset ranked = mset entries
     \<and> (\<forall>e \<in> set ranked.
           tripCount e = length (trips_of (PigLeaderboardEntry.userId e) logs)
         \<and> countryCount e = card (canonical ` set (trips_of (PigLeaderboardEntry.userId e) logs))
         \<and> score e = tripCount e + 2 * countryCount e)
     \<and> sorted_wrt (\<lambda>a b. score b \<le> score a) ranked
     \<and> (\<forall>s. filter (\<lambda>e. score e = s) ranked = filter (\<lambda>e. score e = s) entries))"
proof -
  assume lim: "0 \<le> limit"
  define logs where "logs = guild_logs table gid plat"
  define entries where "entries = leaderboard_entries getISO logs"
  define ranked where "ranked = array_sort compare_score entries"
  define canonical where "canonical = (\<lambda>row :: string PigTravelLog.
           let a = getISO (PigTravelLog.country row); b = getISO (PigTravelLog.countryZh row)
           in if a \<noteq> None \<and> a \<noteq> Some [] then the a
              else if b \<noteq> None \<and> b \<noteq> Some [] then the b
              else PigTravelLog.country row)"
  have can: "countryKey getISO = canonical"
    by (rule ext) (simp only: canonical_def countryKey_lookup)
  have empty: "logs = [] \<Longrightarrow> ranked = []"
    by (simp add: ranked_def entries_def leaderboard_entries_def array_sort_def)
  have res: "getPigLeaderboard getISO table gid plat limit = take (nat limit) ranked"
  proof (cases "logs = []")
    case True
    then show ?thesis
      using empty by (simp add: getPigLeaderboard_def logs_def guild_logs_def)
  next
    case False
    then show ?thesis
      using slice0_take [OF lim]
      by (simp add: getPigLeaderboard_def logs_def guild_logs_def ranked_def entries_def Let_def)
  qed
  have len: "length (getPigLeaderboard getISO table gid plat limit) \<le> nat limit"
    by (simp add: res)
  have keys: "map PigLeaderboardEntry.userId entries = first_seen (map PigTravelLog.userId logs)"
    by (simp add: entries_def leaderboard_entries_keys)
  have perm: "mset ranked = mset entries"
    by (simp add: ranked_def array_sort_mset)
  then have "set ranked = set entries"
    by (rule mset_eq_setD)
  then have sc: "\<forall>e \<in> set ranked.
           tripCount e = length (trips_of (PigLeaderboardEntry.userId e) logs)
         \<and> countryCount e = card (canonical ` set (trips_of (PigLeaderboardEntry.userId e) logs))
         \<and> score e = tripCount e + 2 * countryCount e"
    using leaderboard_entries_score [of _ getISO logs] by (simp add: entries_def can)
  have srt: "sorted_wrt (\<lambda>a b. score b \<le> score a) ranked"
    by (simp add: ranked_def array_sort_descending)
  have stab: "\<forall>s. filter (\<lambda>e. score e = s) ranked = filter (\<lambda>e. score e = s) entries"
    by (simp add: ranked_def array_sort_stable)
  have "getPigLeaderboard getISO table gid plat limit = take (nat limit) ranked
     \<and> length (getPigLeaderboard getISO table gid plat limit) \<le> nat limit
     \<and> map PigLeaderboardEntry.userId entries = first_seen (map PigTravelLog.userId logs)
     \<and> mset ranked = mset entries
     \<and> (\<forall>e \<in> set ranked.
           tripCount e = length (trips_of (PigLeaderboardEntry.userId e) logs)
         \<and> countryCount e = card (canonical ` set (trips_of (PigLeaderboardEntry.userId e) logs))
         \<and> score e = tripCount e + 2 * countryCount e)
     \<and> sorted_wrt (\<lambda>a b. score b \<le> score a) ranked
     \<and> (\<forall>s. filter (\<lambda>e. score e = s) ranked = filter (\<lambda>e. score e = s) entries)"
    using res len keys perm sc srt stab by blast
  then show ?thesis
    unfolding Let_def logs_def entries_def ranked_def canonical_def Let_def .
qed

text \<open>
  The ranking of the example rows. User A has 4 trips under four country names, which
  the lookup and its fallback bring to 2 canonical countries: the code of Norway, found
  for two country names and once through the localized name, and the raw name Atlantis.
  User B has 6 trips to 1 country. Both score 8, and A, who appears first in the rows,
  stays first. The theorem gives the country counts as the numbers of canonical
  countries of the two users' rows.
\<close>

theorem leaderboard_ranking_witness:
  "(0::int) \<le> 10
   \<and> getPigLeaderboard example_iso example_table ''g1'' ''qq'' 10 =
       [\<lparr> PigLeaderboardEntry.userId = ''A'', username = ''A'', avatarUrl = [],
          tripCount = 4, countryCount = 2, score = 8 \<rparr>,
        \<lparr> PigLeaderboardEntry.userId = ''B'', username = ''B'', avatarUrl = [],
          tripCount = 6, countryCount = 1, score = 8 \<rparr>]
   \<and> length (getPigLeaderboard example_iso example_table ''g1'' ''qq'' 10) \<le> nat 10
   \<and> map PigTravelLog.country (trips_of ''A'' (guild_logs example_table ''g1'' ''qq''))
       = [''Norway'', ''Atlantis'', ''Norge'', ''Noreg'']
   \<and> card ((\<lambda>row.
           let a = example_iso (PigTravelLog.country row); b = example_iso (PigTravelLog.countryZh row)
           in if a \<noteq> None \<and> a \<noteq> Some [] then the a
              else if b \<noteq> None \<and> b \<noteq> Some [] then the b
              else PigTravelLog.country row)
         ` set (trips_of ''A'' (guild_logs example_table ''g1'' ''qq''))) = 2"
proof -
  have h: "(0::int) \<le> 10" by simp
  let ?A = "\<lparr> PigLeaderboardEntry.userId = ''A'', username = ''A'', avatarUrl = [],
          tripCount = 4, countryCount = 2, score = 8 \<rparr>"
  let ?B = "\<lparr> PigLeaderboardEntry.userId = ''B'', username = ''B'', avatarUrl = [],
          tripCount = 6, countryCount = 1, score = 8 \<rparr>"
  have e: "getPigLeaderboard example_iso example_table ''g1'' ''qq'' 10 = [?A, ?B]"
    by (simp add: getPigLeaderboard_def example_table_def example_log_def example_iso_def
        leaderboard_entries_def count_log_def map_has_def set_add_def countryKey_def
        or_else_def or_string_def make_entry_def array_sort_def compare_score_def
        slice0_def Let_def)
  note t = leaderboard_ranking [OF h, where getISO = example_iso and table = example_table
        and gid = "''g1''" and plat = "''qq''", unfolded Let_def]
  from t have l: "length (getPigLeaderboard example_iso example_table ''g1'' ''qq'' 10) \<le> nat 10"
    by blast
  from t have r: "getPigLeaderboard example_iso example_table ''g1'' ''qq'' 10
      = take (nat 10) (array_sort compare_score (leaderboard_entries example_iso (guild_logs example_table ''g1'' ''qq'')))"
    by blast
  have "length (array_sort compare_score (leaderboard_entries example_iso (guild_logs example_table ''g1'' ''qq''))) \<le> 2"
    by (simp add: guild_logs_def example_table_def example_log_def example_iso_def
        leaderboard_entries_def count_log_def map_has_def set_add_def countryKey_def
        or_else_def or_string_def make_entry_def array_sort_def compare_score_def Let_def)
  with r e have "?A \<in> set (array_sort compare_score (leaderboard_entries example_iso (guild_logs example_table ''g1'' ''qq'')))"
    by (metis in_set_takeD list.set_intros(1))
  with t have "countryCount ?A = card ((\<lambda>row.
           let a = example_iso (PigTravelLog.country row); b = example_iso (PigTravelLog.countryZh row)
           in if a \<noteq> None \<and> a \<noteq> Some [] then the a
              else if b \<noteq> None \<and> b \<noteq> Some [] then the b
              else PigTravelLog.country row)
         ` set (trips_of (PigLeaderboardEntry.userId ?A) (guild_logs example_table ''g1'' ''qq'')))"
    by (simp only: Let_def)
  then have c: "card ((\<lambda>row.
           let a = example_iso (PigTravelLog.country row); b = example_iso (PigTravelLog.countryZh row)
           in if a \<noteq> None \<and> a \<noteq> Some [] then the a
              else if b \<noteq> None \<and> b \<noteq> Some [] then the b
              else PigTravelLog.country row)
         ` set (trips_of ''A'' (guild_logs example_table ''g1'' ''qq''))) = 2"
    by simp
  have n: "map PigTravelLog.country (trips_of ''A'' (guild_logs example_table ''g1'' ''qq''))
       = [''Norway'', ''Atlantis'', ''Norge'', ''Noreg'']"
    by (simp add: trips_of_def guild_logs_def example_table_def example_log_def)
  show ?thesis
    using h e l n c by blast
qed

section \<open>Properties of the parser and the resolver\<close>

lemma parse_total: "\<exists>r. parseLocationResponse P (Suc d) content = Inr r"
  by (auto split: sum.splits option.splits)

lemma startsWith_length: "startsWith s p \<Longrightarrow> length p \<le> length s"
proof -
  assume "startsWith s p"
  then have "length (take (length p) s) = length p" by (simp add: startsWith_def)
  then show ?thesis by simp
qed

lemma indexOf_bound: "indexOf s p = Some i \<Longrightarrow> i + length p \<le> length s"
proof (induction s arbitrary: i)
  case Nil
  then show ?case by (simp split: if_splits)
next
  case (Cons c cs)
  show ?case
  proof (cases "startsWith (c # cs) p")
    case True
    then show ?thesis using Cons.prems startsWith_length [OF True] by simp
  next
    case False
    then obtain j where j: "indexOf cs p = Some j" "i = Suc j"
      using Cons.prems by auto
    then show ?thesis using Cons.IH [OF j(1)] by simp
  qed
qed

lemma indexOf_at: "indexOf s p = Some i \<Longrightarrow> startsWith (drop i s) p"
proof (induction s arbitrary: i)
  case Nil
  then show ?case by (auto simp: startsWith_def split: if_splits)
next
  case (Cons c cs)
  then show ?case by (auto split: if_splits)
qed

lemma startsWith_take:
  "length p \<le> n \<Longrightarrow> startsWith (take n s) p = startsWith s p"
  by (simp add: startsWith_def min_def)

lemma indexOf_take:
  "indexOf s p = Some i \<Longrightarrow> i + length p \<le> n \<Longrightarrow> indexOf (take n s) p = Some i"
proof (induction s arbitrary: i n)
  case Nil
  then show ?case by (auto split: if_splits)
next
  case (Cons c cs)
  show ?case
  proof (cases "startsWith (c # cs) p")
    case True
    then have i: "i = 0" using Cons.prems by simp
    then have "length p \<le> n" using Cons.prems by simp
    then have "startsWith (take n (c # cs)) p" using True by (simp add: startsWith_take)
    moreover have "take n (c # cs) \<noteq> [] \<or> p = []"
      using True \<open>length p \<le> n\<close> by (cases n) (auto simp: startsWith_def)
    ultimately show ?thesis using i
      by (cases "take n (c # cs)") (auto simp: startsWith_def)
  next
    case False
    then obtain j where j: "indexOf cs p = Some j" "i = Suc j"
      using Cons.prems by auto
    then obtain m where m: "n = Suc m" using Cons.prems by (cases n) auto
    have lp: "length p \<le> n" using Cons.prems by simp
    have "indexOf (take m cs) p = Some j"
      using Cons.IH [OF j(1), of m] Cons.prems j m by simp
    moreover have "\<not> startsWith (c # take m cs) p"
      using False startsWith_take [OF lp, of "c # cs"] m by simp
    ultimately show ?thesis using m j by simp
  qed
qed

lemma indexOf_head: "startsWith s p \<Longrightarrow> s \<noteq> [] \<Longrightarrow> indexOf s p = Some 0"
  by (cases s) auto



lemma lastIndexOf_props:
  assumes "lastIndexOf s c = Some e"
  shows "e < length s" "s ! e = c" "lastIndexOf (take (e + 1) s) c = Some e"
proof -
  obtain j where j: "indexOf (rev s) [c] = Some j" and e: "e = length s - 1 - j"
    using assms by (auto simp: lastIndexOf_def split: option.splits)
  have b: "j + 1 \<le> length s" using indexOf_bound [OF j] by simp
  then show el: "e < length s" using e by simp
  have "startsWith (drop j (rev s)) [c]" using indexOf_at [OF j] .
  then have "take 1 (drop j (rev s)) = [c]" by (simp add: startsWith_def)
  moreover have "take 1 (drop j (rev s)) = [rev s ! j]"
    using b by (simp add: take_Suc_conv_app_nth)
  ultimately have "rev s ! j = c" by simp
  then show se: "s ! e = c"
    using b e by (simp add: rev_nth)
  have t: "take (Suc e) s = take e s @ [c]"
    using el se by (simp add: take_Suc_conv_app_nth)
  show "lastIndexOf (take (e + 1) s) c = Some e"
    using el by (simp add: t lastIndexOf_def startsWith_def min_def)
qed

lemma length_quoted [simp]: "length (quoted s) = length s + 2"
  by (simp add: quoted_def)

lemma objectMatch_idem:
  assumes "objectMatch content = Some m"
  shows "objectMatch m = Some m"
proof -
  obtain i where i: "indexOf content ''{'' = Some i"
    using assms by (auto simp: objectMatch_def split: option.splits)
  define r where "r = drop i content"
  obtain a where a: "indexOf (drop 1 r) (quoted ''country'') = Some a"
    using assms i by (auto simp: objectMatch_def r_def Let_def split: option.splits)
  obtain b where b: "indexOf (drop (1 + a + 9) r) (quoted ''landmark'') = Some b"
    using assms i a by (auto simp: objectMatch_def r_def Let_def split: option.splits)
  obtain e where e: "lastIndexOf r (CHR ''}'') = Some e"
    using assms i a b by (auto simp: objectMatch_def r_def Let_def split: option.splits)
  have le: "1 + a + 9 + b + 10 \<le> e" and m: "m = take (e + 1) r"
    using assms i a b e by (auto simp: objectMatch_def r_def Let_def split: option.splits if_splits)
  have sw: "startsWith r ''{''" using indexOf_at [OF i] by (simp add: r_def)
  then have "r \<noteq> []" by (auto simp: startsWith_def)
  then have mne: "m \<noteq> []" by (simp add: m)
  have "startsWith m ''{''" using sw by (simp add: m startsWith_take)
  then have i': "indexOf m ''{'' = Some 0" using mne by (rule indexOf_head)
  have "drop 1 m = take e (drop 1 r)" by (simp add: m drop_take)
  then have a': "indexOf (drop 1 m) (quoted ''country'') = Some a"
    using indexOf_take [OF a, of e] le by simp
  have "drop (1 + a + 9) m = take (e + 1 - (1 + a + 9)) (drop (1 + a + 9) r)"
    by (simp add: m drop_take)
  then have b': "indexOf (drop (1 + a + 9) m) (quoted ''landmark'') = Some b"
    using indexOf_take [OF b, of "e + 1 - (1 + a + 9)"] le by simp
  have e': "lastIndexOf m (CHR ''}'') = Some e"
    using lastIndexOf_props(3) [OF e] by (simp add: m)
  show ?thesis
    using i' a' b' e' le by (simp add: objectMatch_def Let_def m)
qed


lemma attempt_malformed: "malformed P c \<Longrightarrow> parseAttempt P c = Inl SyntaxError"
  by (simp add: malformed_def parseAttempt_def)

lemma buildLocation_missing:
  "data \<noteq> JNull \<Longrightarrow> missing_required data \<Longrightarrow> buildLocation data = Inr None"
  by (auto simp: buildLocation_def missing_required_def truthy_opt_def split: option.splits)

lemma attempt_lacks: "lacks_fields P c \<Longrightarrow> parseAttempt P c = Inr None"
  by (auto simp: lacks_fields_def parseAttempt_def buildLocation_missing split: option.splits)

lemma parse_lacks: "lacks_fields P c \<Longrightarrow> parseLocationResponse P (Suc d) c = Inr None"
  by (simp add: attempt_lacks)

lemma parse_fixpoint_fails:
  assumes fx: "objectMatch m = Some m" and bad: "malformed P m \<or> lacks_fields P m"
  shows "parseLocationResponse P d m = Inl RangeError \<or> parseLocationResponse P d m = Inr None"
proof (induction d)
  case 0
  show ?case by simp
next
  case (Suc d)
  show ?case
  proof (cases "lacks_fields P m")
    case True
    then show ?thesis using parse_lacks [of P m d] by blast
  next
    case False
    then have "parseAttempt P m = Inl SyntaxError" using bad attempt_malformed by blast
    then show ?thesis using Suc fx by auto
  qed
qed

lemma parse_malformed:
  assumes bad: "malformed P c"
    and inner: "\<forall>m. objectMatch c = Some m \<longrightarrow> malformed P m \<or> lacks_fields P m"
  shows "parseLocationResponse P (Suc d) c = Inr None"
proof (cases "objectMatch c")
  case None
  then show ?thesis using attempt_malformed [OF bad] by simp
next
  case (Some m)
  have "objectMatch m = Some m" using Some by (rule objectMatch_idem)
  moreover have "malformed P m \<or> lacks_fields P m" using inner Some by simp
  ultimately have "parseLocationResponse P d m = Inl RangeError \<or> parseLocationResponse P d m = Inr None"
    by (rule parse_fixpoint_fails)
  then show ?thesis using attempt_malformed [OF bad] Some by auto
qed

lemma static_pick_member:
  assumes "LOCATIONS \<noteq> []" "0 \<le> r" "r < 1"
  shows "\<exists>l \<in> set LOCATIONS. getRandomStaticLocation LOCATIONS r = Some l"
proof -
  let ?n = "length LOCATIONS"
  let ?i = "\<lfloor>r * of_nat ?n\<rfloor>"
  have n: "0 < ?n" using assms(1) by simp
  have "0 \<le> r * of_nat ?n" using assms(2) by simp
  then have lo: "0 \<le> ?i" by simp
  have "r * of_nat ?n < of_nat ?n" using assms(3) n by simp
  then have hi: "?i < int ?n" by (simp add: floor_less_iff)
  have "getRandomStaticLocation LOCATIONS r = Some (LOCATIONS ! nat ?i)"
    using lo hi by (simp add: getRandomStaticLocation_def Let_def)
  moreover have "nat ?i < ?n"
    using lo hi by linarith
  then have "LOCATIONS ! nat ?i \<in> set LOCATIONS"
    by (rule nth_mem)
  ultimately show ?thesis by blast
qed

lemma resolver_null_static:
  assumes "invoke w = Content content"
    and "parseLocationResponse P (stack_depth w) content = Inr None"
  shows "destination (generateLocationWithLLM L P config w cd) = static_pick L w"
  using assms
  by (auto simp: generateLocationWithLLM_def fallback_def failure_def static_pick_def Let_def
        split: model_outcome.splits)


text \<open>
  C2. The parser raises no exception, whatever the answer and \<^verbatim>\<open>JSON.parse\<close> are, as
  long as the call stack has room for one call: it returns a destination or \<^verbatim>\<open>null\<close>.
  It returns \<^verbatim>\<open>null\<close> for an answer whose JSON candidate parses to a value that lacks a
  required field, and for an answer whose candidate is malformed JSON and whose loosely
  matched object, if there is one, is malformed or lacks a required field as well. The
  resolver, given such an answer by the model, returns the static pick, which is an entry
  of a catalog that is not empty; its result is a value, there is no exception. For an
  answer whose candidate is malformed JSON and which holds a loosely matched object, the
  parser returns what its nested call returns for that object, and \<^verbatim>\<open>null\<close> when the
  nested call raises: an answer that is malformed JSON around a well-formed object with
  the required fields gives the destination of that object.
\<close>

theorem malformed_answer_falls_back:
  "(\<exists>r. parseLocationResponse P (Suc d) content = Inr r)
   \<and> ((lacks_fields P content
         \<or> (malformed P content
            \<and> (\<forall>m. objectMatch content = Some m \<longrightarrow> malformed P m \<or> lacks_fields P m)))
        \<longrightarrow> parseLocationResponse P (Suc d) content = Inr None
          \<and> (invoke w = Content content \<and> stack_depth w = Suc d
               \<longrightarrow> destination (generateLocationWithLLM LOCATIONS P config w cd) = static_pick LOCATIONS w
                 \<and> (LOCATIONS \<noteq> [] \<and> 0 \<le> random_static w \<and> random_static w < 1
                      \<longrightarrow> (\<exists>l \<in> set LOCATIONS.
                             destination (generateLocationWithLLM LOCATIONS P config w cd) = Some l))))
   \<and> (malformed P content \<and> objectMatch content = Some found
        \<longrightarrow> parseLocationResponse P (Suc d) content
              = (case parseLocationResponse P d found of Inr r \<Rightarrow> Inr r | Inl e \<Rightarrow> Inr None))"
proof (intro conjI impI)
  show "\<exists>r. parseLocationResponse P (Suc d) content = Inr r" by (rule parse_total)
next
  assume bad: "lacks_fields P content
         \<or> (malformed P content
            \<and> (\<forall>m. objectMatch content = Some m \<longrightarrow> malformed P m \<or> lacks_fields P m))"
  then show null: "parseLocationResponse P (Suc d) content = Inr None"
    using parse_lacks [of P content d] parse_malformed [of P content d] by blast
  assume w: "invoke w = Content content \<and> stack_depth w = Suc d"
  then show st: "destination (generateLocationWithLLM LOCATIONS P config w cd) = static_pick LOCATIONS w"
    using null resolver_null_static [of w content P LOCATIONS config cd] by simp
  assume "LOCATIONS \<noteq> [] \<and> 0 \<le> random_static w \<and> random_static w < 1"
  then show "\<exists>l \<in> set LOCATIONS.
      destination (generateLocationWithLLM LOCATIONS P config w cd) = Some l"
    using static_pick_member [of LOCATIONS "random_static w"] st by (simp add: static_pick_def)
next
  assume "malformed P content \<and> objectMatch content = Some found"
  then show "parseLocationResponse P (Suc d) content
      = (case parseLocationResponse P d found of Inr r \<Rightarrow> Inr r | Inl e \<Rightarrow> Inr None)"
    by (simp add: attempt_malformed)
qed

lemma example_world_fields:
  "chatluna (example_world t m i) = True"
  "now_start (example_world t m i) = t"
  "now_failure (example_world t m i) = t + 2000"
  "createChatModel (example_world t m i) = m"
  "invoke (example_world t m i) = i"
  "random_static (example_world t m i) = 3 / 4"
  "stack_depth (example_world t m i) = 8"
  "searchPexelsPhoto (example_world t m i) = (\<lambda>q. None)"
  "searchUnsplashPhoto (example_world t m i) = (\<lambda>q. None)"
  by (simp_all add: example_world_def)

lemma example_pick:
  "getRandomStaticLocation example_catalog (3 / 4) = Some (example_location ''Peru'' ''Machu Picchu'')"
proof -
  have "\<lfloor>(3 / 4 :: rat) * of_nat (length example_catalog)\<rfloor> = 1"
    by (rule floor_unique) (simp_all add: example_catalog_def)
  then show ?thesis
    by (simp add: getRandomStaticLocation_def Let_def) (simp add: example_catalog_def)
qed

lemma example_refusal:
  "jsonStr ''Sorry, no idea'' = ''Sorry, no idea''"
  "trim ''Sorry, no idea'' = ''Sorry, no idea''"
  "objectMatch ''Sorry, no idea'' = None"
  by (simp_all add: jsonStr_def jsonMatch_def fence_def startsWith_def trim_def is_space_def
        objectMatch_def)

lemma example_unquoted_object:
  "jsonStr example_unquoted = example_unquoted"
  "trim example_unquoted = example_unquoted"
  "objectMatch example_unquoted = Some example_loose"
  "jsonStr example_loose = example_loose"
  "trim example_loose = example_loose"
  by (simp_all add: example_unquoted_def example_loose_def quoted_def jsonStr_def jsonMatch_def
        fence_def startsWith_def trim_def is_space_def objectMatch_def lastIndexOf_def)

text \<open>
  Two answers that are no JSON. The first holds an object that the loose extraction
  finds, with values that are not quoted: the object is no JSON either, the parser
  returns \<^verbatim>\<open>null\<close> and the resolver the catalog entry that the random number 3/4 picks.
  The second holds no object at all, with the same result.
\<close>

theorem malformed_answer_falls_back_witness:
  "malformed example_parse example_unquoted
   \<and> objectMatch example_unquoted = Some example_loose
   \<and> malformed example_parse example_loose
   \<and> parseLocationResponse example_parse 8 example_unquoted = Inr None
   \<and> destination (generateLocationWithLLM example_catalog example_parse example_config
         (example_world 1000 ModelReady (Content example_unquoted)) 0)
       = Some (example_location ''Peru'' ''Machu Picchu'')
   \<and> malformed example_parse ''Sorry, no idea''
   \<and> objectMatch ''Sorry, no idea'' = None
   \<and> parseLocationResponse example_parse 8 ''Sorry, no idea'' = Inr None
   \<and> destination (generateLocationWithLLM example_catalog example_parse example_config
         (example_world 1000 ModelReady (Content ''Sorry, no idea'')) 0)
       = Some (example_location ''Peru'' ''Machu Picchu'')"
proof -
  have ne: "example_unquoted \<noteq> example_answer" "example_unquoted \<noteq> ''{}''"
    "example_loose \<noteq> example_answer" "example_loose \<noteq> ''{}''"
    by (simp_all add: example_unquoted_def example_loose_def example_answer_def quoted_def)
  have mu: "malformed example_parse example_unquoted"
    by (simp add: malformed_def example_unquoted_object example_parse_def ne)
  have ou: "objectMatch example_unquoted = Some example_loose"
    by (rule example_unquoted_object)
  have mo: "malformed example_parse example_loose"
    by (simp add: malformed_def example_unquoted_object example_parse_def ne)
  have du: "stack_depth (example_world 1000 ModelReady (Content example_unquoted)) = Suc 7"
    by (simp add: example_world_fields)
  note tu = malformed_answer_falls_back [of example_parse 7 example_unquoted
      "example_world 1000 ModelReady (Content example_unquoted)" example_catalog example_config 0]
  have pu: "parseLocationResponse example_parse 8 example_unquoted = Inr None"
    using tu mu ou mo by (simp add: eval_nat_numeral del: parseLocationResponse.simps)
  have su: "destination (generateLocationWithLLM example_catalog example_parse example_config
         (example_world 1000 ModelReady (Content example_unquoted)) 0)
       = static_pick example_catalog (example_world 1000 ModelReady (Content example_unquoted))"
    using tu mu ou mo du by (simp add: example_world_fields del: parseLocationResponse.simps)
  have m: "malformed example_parse ''Sorry, no idea''"
    by (simp add: malformed_def example_refusal example_parse_def example_answer_def quoted_def)
  have o: "objectMatch ''Sorry, no idea'' = None" by (rule example_refusal)
  have d: "stack_depth (example_world 1000 ModelReady (Content ''Sorry, no idea'')) = Suc 7"
    by (simp add: example_world_fields)
  note t = malformed_answer_falls_back [of example_parse 7 "''Sorry, no idea''"
      "example_world 1000 ModelReady (Content ''Sorry, no idea'')" example_catalog example_config 0]
  have p: "parseLocationResponse example_parse 8 ''Sorry, no idea'' = Inr None"
    using t m o by (simp add: eval_nat_numeral del: parseLocationResponse.simps)
  have s: "destination (generateLocationWithLLM example_catalog example_parse example_config
         (example_world 1000 ModelReady (Content ''Sorry, no idea'')) 0)
       = static_pick example_catalog (example_world 1000 ModelReady (Content ''Sorry, no idea''))"
    using t m o d by (simp add: example_world_fields del: parseLocationResponse.simps)
  show ?thesis
    using mu ou mo pu su m o p s by (simp add: static_pick_def example_world_fields example_pick)
qed
lemma buildLocation_success:
  assumes "buildLocation data = Inr (Some loc)"
  shows "\<exists>url. field data ''country'' = Some (Location.country loc) \<and> truthy (Location.country loc)
       \<and> field data ''landmark'' = Some (landmark loc) \<and> truthy (landmark loc)
       \<and> Location.countryZh loc = or_val (field data ''countryZh'') (Location.country loc)
       \<and> landmarkZh loc = or_val (field data ''landmarkZh'') (landmark loc)
       \<and> Location.timezone loc = or_val (field data ''timezone'') (JStr ''UTC'')
       \<and> city loc = or_val (field data ''city'') (JStr [])
       \<and> field data ''landscapeUrl'' = Some (JStr url)
       \<and> (startsWith url ''http'' \<longrightarrow> landscapeUrl loc = JStr url)
       \<and> (\<not> startsWith url ''http'' \<longrightarrow>
             (\<exists>ls cs. toString (landmark loc) = Some ls \<and> toString (Location.country loc) = Some cs
                \<and> landscapeUrl loc = JStr (''https://images.unsplash.com/featured/?''
                       @ encodeURIComponent ls @ '','' @ encodeURIComponent cs)))"
proof -
  have nn: "data \<noteq> JNull"
    using assms by (auto simp: buildLocation_def split: if_splits)
  obtain c where c: "field data ''country'' = Some c"
    using assms nn by (cases "field data ''country''") (simp_all add: buildLocation_def)
  obtain l where l: "field data ''landmark'' = Some l"
    using assms nn c by (cases "field data ''landmark''") (simp_all add: buildLocation_def)
  obtain u where u: "field data ''landscapeUrl'' = Some u"
    using assms nn c l by (cases "field data ''landscapeUrl''") (simp_all add: buildLocation_def)
  have t: "truthy c" "truthy l" "truthy u"
    using assms nn c l u by (auto simp: buildLocation_def split: if_splits)
  obtain url where url: "u = JStr url"
    using assms nn c l u t by (cases u) (simp_all add: buildLocation_def Let_def)
  define base where "base =
      \<lparr> Location.country = c, countryZh = or_val (field data ''countryZh'') c,
        city = or_val (field data ''city'') (JStr []), landmark = l,
        landmarkZh = or_val (field data ''landmarkZh'') l,
        timezone = or_val (field data ''timezone'') (JStr ''UTC''), landscapeUrl = JStr url \<rparr>"
  show ?thesis
  proof (cases "startsWith url ''http''")
    case True
    then have "loc = base"
      using assms nn c l u t url by (simp add: buildLocation_def Let_def base_def)
    then show ?thesis
      using c l u t url True by (intro exI [of _ url]) (simp add: base_def)
  next
    case False
    obtain ls where ls: "toString l = Some ls"
      using assms nn c l u t url False
      by (cases "toString l") (simp_all add: buildLocation_def Let_def)
    obtain cs where cs: "toString c = Some cs"
      using assms nn c l u t url False ls
      by (cases "toString c") (simp_all add: buildLocation_def Let_def)
    have "loc = base \<lparr> landscapeUrl := JStr (''https://images.unsplash.com/featured/?''
                       @ encodeURIComponent ls @ '','' @ encodeURIComponent cs) \<rparr>"
      using assms nn c l u t url False ls cs by (simp add: buildLocation_def Let_def base_def)
    then show ?thesis
      using c l u t url False ls cs by (intro exI [of _ url]) (simp add: base_def)
  qed
qed

lemma parse_success_source:
  "parseLocationResponse P d content = Inr (Some loc) \<Longrightarrow>
   \<exists>s data. P s = Some data \<and> buildLocation data = Inr (Some loc)"
proof (induction d arbitrary: content)
  case 0
  then show ?case by simp
next
  case (Suc d)
  show ?case
  proof (cases "parseAttempt P content")
    case (Inr r)
    then have "parseAttempt P content = Inr (Some loc)" using Suc.prems by simp
    then show ?thesis
      by (auto simp: parseAttempt_def split: option.splits)
  next
    case (Inl e)
    then obtain m where "objectMatch content = Some m"
      "parseLocationResponse P d m = Inr (Some loc)"
      using Suc.prems by (auto split: option.splits sum.splits)
    then show ?thesis using Suc.IH by blast
  qed
qed

text \<open>
  C6. A destination that the parser returns was built from a value that \<^verbatim>\<open>JSON.parse\<close>
  gave for a candidate text: country and landmark are the value's truthy fields; the
  localized country is the value's localized country or else the country, and likewise
  for the landmark; the timezone is the value's timezone or else UTC; in particular an
  absent localized name gives the canonical name and an absent timezone gives UTC. The
  value's photo URL is a string: when it starts with http it is kept, and otherwise the
  destination's photo URL is the fixed search address followed by the URL-encoded
  landmark, a comma and the URL-encoded country. In both cases the destination's photo
  URL starts with http.
\<close>

theorem parsed_location_defaults:
  assumes "parseLocationResponse P d content = Inr (Some loc)"
  shows "\<exists>s data url. P s = Some data
       \<and> field data ''country'' = Some (Location.country loc) \<and> truthy (Location.country loc)
       \<and> field data ''landmark'' = Some (landmark loc) \<and> truthy (landmark loc)
       \<and> Location.countryZh loc = or_val (field data ''countryZh'') (Location.country loc)
       \<and> landmarkZh loc = or_val (field data ''landmarkZh'') (landmark loc)
       \<and> Location.timezone loc = or_val (field data ''timezone'') (JStr ''UTC'')
       \<and> city loc = or_val (field data ''city'') (JStr [])
       \<and> (field data ''countryZh'' = None \<longrightarrow> Location.countryZh loc = Location.country loc)
       \<and> (field data ''landmarkZh'' = None \<longrightarrow> landmarkZh loc = landmark loc)
       \<and> (field data ''timezone'' = None \<longrightarrow> Location.timezone loc = JStr ''UTC'')
       \<and> field data ''landscapeUrl'' = Some (JStr url)
       \<and> (startsWith url ''http'' \<longrightarrow> landscapeUrl loc = JStr url)
       \<and> (\<not> startsWith url ''http'' \<longrightarrow>
             (\<exists>ls cs. toString (landmark loc) = Some ls \<and> toString (Location.country loc) = Some cs
                \<and> landscapeUrl loc = JStr (''https://images.unsplash.com/featured/?''
                       @ encodeURIComponent ls @ '','' @ encodeURIComponent cs)))
       \<and> (\<exists>u. landscapeUrl loc = JStr u \<and> startsWith u ''http'')"
proof -
  obtain s data where p: "P s = Some data" and b: "buildLocation data = Inr (Some loc)"
    using parse_success_source [OF assms] by blast
  obtain url where f:
    "field data ''country'' = Some (Location.country loc)" "truthy (Location.country loc)"
    "field data ''landmark'' = Some (landmark loc)" "truthy (landmark loc)"
    "Location.countryZh loc = or_val (field data ''countryZh'') (Location.country loc)"
    "landmarkZh loc = or_val (field data ''landmarkZh'') (landmark loc)"
    "Location.timezone loc = or_val (field data ''timezone'') (JStr ''UTC'')"
    "city loc = or_val (field data ''city'') (JStr [])"
    "field data ''landscapeUrl'' = Some (JStr url)"
    and h: "startsWith url ''http'' \<longrightarrow> landscapeUrl loc = JStr url"
    and n: "\<not> startsWith url ''http'' \<longrightarrow>
             (\<exists>ls cs. toString (landmark loc) = Some ls \<and> toString (Location.country loc) = Some cs
                \<and> landscapeUrl loc = JStr (''https://images.unsplash.com/featured/?''
                       @ encodeURIComponent ls @ '','' @ encodeURIComponent cs))"
    using buildLocation_success [OF b] by blast
  have d: "field data ''countryZh'' = None \<longrightarrow> Location.countryZh loc = Location.country loc"
    "field data ''landmarkZh'' = None \<longrightarrow> landmarkZh loc = landmark loc"
    "field data ''timezone'' = None \<longrightarrow> Location.timezone loc = JStr ''UTC''"
    using f by (simp_all add: or_val_def)
  have http: "\<exists>u. landscapeUrl loc = JStr u \<and> startsWith u ''http''"
  proof (cases "startsWith url ''http''")
    case True
    then show ?thesis using h by blast
  next
    case False
    then obtain ls cs where "landscapeUrl loc = JStr (''https://images.unsplash.com/featured/?''
                       @ encodeURIComponent ls @ '','' @ encodeURIComponent cs)"
      using n by blast
    then show ?thesis by (simp add: startsWith_def)
  qed
  from p f h n d http show ?thesis
    by - (rule exI [of _ s], rule exI [of _ data], rule exI [of _ url], intro conjI; assumption)
qed


lemma example_answer_candidate: "trim (jsonStr example_answer) = example_answer"
  by (simp add: example_answer_def quoted_def jsonStr_def jsonMatch_def fence_def startsWith_def
        trim_def is_space_def)

lemma example_answer_built:
  "buildLocation (JObj [(''country'', JStr ''Norway''), (''landmark'', JStr ''North Cape''),
                       (''landscapeUrl'', JStr ''photos/cape.jpg'')]) = Inr (Some north_cape)"
  by (simp add: buildLocation_def field_def or_val_def startsWith_def Let_def north_cape_def
        encodeURIComponent_def encode_unit_def uri_unreserved_def is_alnum_def percent_def)

lemma example_answer_parsed:
  "parseLocationResponse example_parse 8 example_answer = Inr (Some north_cape)"
proof -
  have "parseAttempt example_parse example_answer = Inr (Some north_cape)"
    by (simp add: parseAttempt_def example_answer_candidate example_parse_def example_answer_built)
  then show ?thesis by (simp add: eval_nat_numeral)
qed

text \<open>
  The example answer has a relative photo path and no localized names: the parser
  returns Norway for both country names, UTC, and the search address for North Cape.
\<close>

theorem parsed_location_defaults_witness:
  "parseLocationResponse example_parse 8 example_answer = Inr (Some north_cape)
   \<and> Location.countryZh north_cape = JStr ''Norway''
   \<and> Location.timezone north_cape = JStr ''UTC''
   \<and> (\<exists>u. landscapeUrl north_cape = JStr u \<and> startsWith u ''http'')"
proof -
  note p = example_answer_parsed
  have "\<exists>u. landscapeUrl north_cape = JStr u \<and> startsWith u ''http''"
    using parsed_location_defaults [OF p] by blast
  then show ?thesis
    using p by (simp add: north_cape_def)
qed

section \<open>Properties of the cooldown\<close>

lemma resolver_skips:
  "\<not> attempts config w cd \<Longrightarrow>
   generateLocationWithLLM L P config w cd = fallback L w cd []"
  by (auto simp: generateLocationWithLLM_def attempts_def cooldownMs_of_def Let_def)

lemma resolver_no_model:
  "attempts config w cd \<Longrightarrow> createChatModel w \<noteq> ModelReady \<Longrightarrow>
   generateLocationWithLLM L P config w cd =
     failure L w (cooldownMs_of config) cd [CreateChatModel (llmLocationModel config)]"
  by (cases "createChatModel w")
     (auto simp: generateLocationWithLLM_def attempts_def cooldownMs_of_def Let_def)

lemma resolver_invoke_throws:
  "attempts config w cd \<Longrightarrow> createChatModel w = ModelReady \<Longrightarrow> invoke w = InvokeThrows \<Longrightarrow>
   generateLocationWithLLM L P config w cd =
     failure L w (cooldownMs_of config) cd [CreateChatModel (llmLocationModel config), Invoke]"
  by (auto simp: generateLocationWithLLM_def attempts_def cooldownMs_of_def Let_def)

lemma resolver_parse_raises:
  "attempts config w cd \<Longrightarrow> createChatModel w = ModelReady \<Longrightarrow> invoke w = Content content \<Longrightarrow>
   parseLocationResponse P (stack_depth w) content = Inl e \<Longrightarrow>
   generateLocationWithLLM L P config w cd =
     failure L w (cooldownMs_of config) cd [CreateChatModel (llmLocationModel config), Invoke]"
  by (auto simp: generateLocationWithLLM_def attempts_def cooldownMs_of_def Let_def)

lemma resolver_parse_null:
  "attempts config w cd \<Longrightarrow> createChatModel w = ModelReady \<Longrightarrow> invoke w = Content content \<Longrightarrow>
   parseLocationResponse P (stack_depth w) content = Inr None \<Longrightarrow>
   generateLocationWithLLM L P config w cd =
     fallback L w cd [CreateChatModel (llmLocationModel config), Invoke]"
  by (auto simp: generateLocationWithLLM_def attempts_def cooldownMs_of_def Let_def)

lemma resolver_raises_after_parse:
  "attempts config w cd \<Longrightarrow> createChatModel w = ModelReady \<Longrightarrow> invoke w = Content content \<Longrightarrow>
   parseLocationResponse P (stack_depth w) content = Inr (Some loc) \<Longrightarrow>
   raises_after_parse config loc \<Longrightarrow>
   generateLocationWithLLM L P config w cd =
     failure L w (cooldownMs_of config) 0 [CreateChatModel (llmLocationModel config), Invoke]"
  by (auto simp: generateLocationWithLLM_def attempts_def cooldownMs_of_def Let_def
        raises_after_parse_def split: option.splits)

lemma resolver_success:
  "attempts config w cd \<Longrightarrow> createChatModel w = ModelReady \<Longrightarrow> invoke w = Content content \<Longrightarrow>
   parseLocationResponse P (stack_depth w) content = Inr (Some loc) \<Longrightarrow>
   \<not> raises_after_parse config loc \<Longrightarrow>
   cooldownUntil (generateLocationWithLLM L P config w cd) = 0
   \<and> (\<exists>loc'. destination (generateLocationWithLLM L P config w cd) = Some loc')"
  by (auto simp: generateLocationWithLLM_def attempts_def cooldownMs_of_def Let_def
        raises_after_parse_def split: option.splits prod.splits)

lemma resolver_attempt_calls:
  "attempts config w cd \<Longrightarrow>
   \<exists>cs. calls (generateLocationWithLLM L P config w cd) = CreateChatModel (llmLocationModel config) # cs"
  by (auto simp: generateLocationWithLLM_def attempts_def cooldownMs_of_def Let_def
        fallback_def failure_def
        split: option.splits prod.splits model_outcome.splits invoke_outcome.splits sum.splits)

lemma resolver_call_failure:
  assumes a: "attempts config w cd"
    and f: "createChatModel w \<noteq> ModelReady \<or> invoke w = InvokeThrows"
  shows "destination (generateLocationWithLLM L P config w cd) = static_pick L w
       \<and> cooldownUntil (generateLocationWithLLM L P config w cd)
           = (if cooldownMs_of config > 0 then now_failure w + cooldownMs_of config else cd)"
proof (cases "createChatModel w = ModelReady")
  case False
  then show ?thesis
    using resolver_no_model [OF a False, of L P] by (simp add: failure_def static_pick_def)
next
  case True
  then have "invoke w = InvokeThrows" using f by simp
  then show ?thesis
    using resolver_invoke_throws [OF a True, of L P] by (simp add: failure_def static_pick_def)
qed

lemma example_attempts:
  "attempts example_config (example_world t m i) cd = (\<not> t < cd)"
  by (simp add: attempts_def cooldownMs_of_def example_config_fields example_world_fields)

lemma example_refusal_parse:
  "parseLocationResponse example_parse 8 ''Sorry, no idea'' = Inr None"
proof -
  have "parseAttempt example_parse ''Sorry, no idea'' = Inl SyntaxError"
    by (simp add: parseAttempt_def jsonStr_def jsonMatch_def fence_def startsWith_def trim_def
          is_space_def example_parse_def example_answer_def quoted_def)
  moreover have "objectMatch ''Sorry, no idea'' = None"
    by (simp add: objectMatch_def startsWith_def)
  ultimately show ?thesis by (simp add: eval_nat_numeral)
qed

text \<open>
  C3, as the code has it. A call that attempts generation falls back to the static pick
  and sets the cooldown timestamp to the failure's clock plus the configured duration,
  when that duration is above 0, in every failure of the call itself: the model cannot be
  created, the invocation throws, or the parser raises; the same holds, with the
  timestamp already cleared to 0, for an exception after a successful parse. When the
  answer fails to parse (the parser returns \<^verbatim>\<open>null\<close>) the call falls back to the static
  pick and leaves the timestamp unchanged.
\<close>

theorem failure_starts_cooldown:
  "attempts config w cd \<Longrightarrow>
   (let R = generateLocationWithLLM L P config w cd; N = cooldownMs_of config in
     ((createChatModel w \<noteq> ModelReady \<or> invoke w = InvokeThrows
        \<or> (\<exists>content e. invoke w = Content content
              \<and> parseLocationResponse P (stack_depth w) content = Inl e))
       \<longrightarrow> destination R = static_pick L w
         \<and> cooldownUntil R = (if N > 0 then now_failure w + N else cd))
   \<and> ((createChatModel w = ModelReady
        \<and> (\<exists>content loc. invoke w = Content content
              \<and> parseLocationResponse P (stack_depth w) content = Inr (Some loc)
              \<and> raises_after_parse config loc))
       \<longrightarrow> destination R = static_pick L w
         \<and> cooldownUntil R = (if N > 0 then now_failure w + N else 0))
   \<and> ((createChatModel w = ModelReady
        \<and> (\<exists>content. invoke w = Content content
              \<and> parseLocationResponse P (stack_depth w) content = Inr None))
       \<longrightarrow> destination R = static_pick L w \<and> cooldownUntil R = cd))"
proof -
  assume a: "attempts config w cd"
  define R where "R = generateLocationWithLLM L P config w cd"
  define N where "N = cooldownMs_of config"
  have 1: "destination R = static_pick L w
         \<and> cooldownUntil R = (if N > 0 then now_failure w + N else cd)"
    if f: "createChatModel w \<noteq> ModelReady \<or> invoke w = InvokeThrows
        \<or> (\<exists>content e. invoke w = Content content
              \<and> parseLocationResponse P (stack_depth w) content = Inl e)"
  proof (cases "createChatModel w = ModelReady")
    case False
    then show ?thesis
      using resolver_no_model [OF a False, of L P]
      by (simp add: R_def N_def failure_def static_pick_def)
  next
    case True
    then consider "invoke w = InvokeThrows"
      | content e where "invoke w = Content content"
          "parseLocationResponse P (stack_depth w) content = Inl e"
      using f by blast
    then show ?thesis
    proof cases
      case 1
      then show ?thesis
        using resolver_invoke_throws [OF a True 1, of L P]
        by (simp add: R_def N_def failure_def static_pick_def)
    next
      case 2
      then show ?thesis
        using resolver_parse_raises [OF a True 2, of L]
        by (simp add: R_def N_def failure_def static_pick_def)
    qed
  qed
  have 2: "destination R = static_pick L w
         \<and> cooldownUntil R = (if N > 0 then now_failure w + N else 0)"
    if f: "createChatModel w = ModelReady
        \<and> (\<exists>content loc. invoke w = Content content
              \<and> parseLocationResponse P (stack_depth w) content = Inr (Some loc)
              \<and> raises_after_parse config loc)"
  proof -
    obtain content loc where c: "invoke w = Content content"
      "parseLocationResponse P (stack_depth w) content = Inr (Some loc)"
      "raises_after_parse config loc" and m: "createChatModel w = ModelReady"
      using f by blast
    show ?thesis
      using resolver_raises_after_parse [OF a m c, of L]
      by (simp add: R_def N_def failure_def static_pick_def)
  qed
  have 3: "destination R = static_pick L w \<and> cooldownUntil R = cd"
    if f: "createChatModel w = ModelReady
        \<and> (\<exists>content. invoke w = Content content
              \<and> parseLocationResponse P (stack_depth w) content = Inr None)"
  proof -
    obtain content where c: "invoke w = Content content"
      "parseLocationResponse P (stack_depth w) content = Inr None"
      and m: "createChatModel w = ModelReady"
      using f by blast
    show ?thesis
      using resolver_parse_null [OF a m c, of L]
      by (simp add: R_def fallback_def static_pick_def)
  qed
  show ?thesis
    using 1 2 3 unfolding Let_def R_def N_def by blast
qed

text \<open>
  The model cannot be created at clock 1000, the failure branch runs at 3000 and the
  cooldown is 300000: the timestamp becomes 303000.
\<close>

theorem failure_starts_cooldown_witness:
  "attempts example_config (example_world 1000 CreateThrows InvokeThrows) 0
   \<and> cooldownUntil (generateLocationWithLLM example_catalog example_parse example_config
         (example_world 1000 CreateThrows InvokeThrows) 0) = 303000
   \<and> destination (generateLocationWithLLM example_catalog example_parse example_config
         (example_world 1000 CreateThrows InvokeThrows) 0)
       = Some (example_location ''Peru'' ''Machu Picchu'')"
proof -
  have a: "attempts example_config (example_world 1000 CreateThrows InvokeThrows) 0"
    by (simp add: example_attempts)
  show ?thesis
    using a failure_starts_cooldown [OF a, of example_catalog example_parse]
    by (simp add: Let_def example_world_fields cooldownMs_of_def example_config_fields
          static_pick_def example_pick)
qed

text \<open>
  C3 as stated fails on the branch of the failed parse: with a cooldown of 300000
  configured and the timestamp at 0, an answer that is no JSON leaves the timestamp at 0.
\<close>

theorem parse_failure_keeps_cooldown:
  "attempts example_config (example_world 1000 ModelReady (Content ''Sorry, no idea'')) 0
   \<and> llmFailureCooldownMs example_config = Some 300000
   \<and> parseLocationResponse example_parse
        (stack_depth (example_world 1000 ModelReady (Content ''Sorry, no idea'')))
        ''Sorry, no idea'' = Inr None
   \<and> cooldownUntil (generateLocationWithLLM example_catalog example_parse example_config
         (example_world 1000 ModelReady (Content ''Sorry, no idea'')) 0) = 0
   \<and> cooldownUntil (generateLocationWithLLM example_catalog example_parse example_config
         (example_world 1000 ModelReady (Content ''Sorry, no idea'')) 0)
       \<noteq> now_failure (example_world 1000 ModelReady (Content ''Sorry, no idea'')) + 300000
   \<and> cooldownUntil (generateLocationWithLLM example_catalog example_parse example_config
         (example_world 1000 ModelReady (Content ''Sorry, no idea'')) 0)
       \<noteq> now_start (example_world 1000 ModelReady (Content ''Sorry, no idea'')) + 300000"
proof -
  have a: "attempts example_config (example_world 1000 ModelReady (Content ''Sorry, no idea'')) 0"
    by (simp add: example_attempts)
  have p: "parseLocationResponse example_parse
        (stack_depth (example_world 1000 ModelReady (Content ''Sorry, no idea'')))
        ''Sorry, no idea'' = Inr None"
    by (simp add: example_world_fields example_refusal_parse del: parseLocationResponse.simps)
  have "generateLocationWithLLM example_catalog example_parse example_config
         (example_world 1000 ModelReady (Content ''Sorry, no idea'')) 0
       = fallback example_catalog (example_world 1000 ModelReady (Content ''Sorry, no idea'')) 0
           [CreateChatModel (llmLocationModel example_config), Invoke]"
    using a p by (intro resolver_parse_null) (simp_all add: example_world_fields)
  then show ?thesis
    using a p by (simp add: fallback_def example_world_fields example_config_fields)
qed



lemma resolver_in_cooldown:
  "llmLocationEnabled config \<Longrightarrow> llmLocationModel config \<noteq> [] \<Longrightarrow> chatluna w \<Longrightarrow>
   0 < cooldownMs_of config \<Longrightarrow> now_start w < cd \<Longrightarrow>
   generateLocationWithLLM L P config w cd = fallback L w cd []"
  by (rule resolver_skips) (simp add: attempts_def)

text \<open>
  C4. Let a call \<open>w1\<close> attempt generation and fail (no model, or the invocation throws)
  with a configured cooldown \<open>N > 0\<close>. It sets the cooldown timestamp to the failure's
  clock plus \<open>N\<close>. A later call \<open>w2\<close> whose clock is before that timestamp makes no call
  to the services, returns the static pick and leaves the timestamp alone; a later call
  at or after the timestamp, so in particular more than \<open>N\<close> after the failure, creates
  the chat model again. A call that attempts generation and parses a destination without
  a later exception returns a destination and sets the timestamp to 0.
\<close>

theorem cooldown_gating:
  fixes w1 w2 :: "'w World_scheme"
  shows "attempts config w1 cd0 \<Longrightarrow>
   createChatModel w1 \<noteq> ModelReady \<or> invoke w1 = InvokeThrows \<Longrightarrow>
   llmFailureCooldownMs config = Some N \<Longrightarrow> 0 < N \<Longrightarrow> chatluna w2 \<Longrightarrow>
   (let R1 = generateLocationWithLLM L P config w1 cd0;
        R2 = generateLocationWithLLM L P config w2 (cooldownUntil R1)
    in cooldownUntil R1 = now_failure w1 + N
     \<and> destination R1 = static_pick L w1
     \<and> (now_start w2 < cooldownUntil R1 \<longrightarrow>
           calls R2 = [] \<and> destination R2 = static_pick L w2
           \<and> cooldownUntil R2 = cooldownUntil R1)
     \<and> (now_failure w1 + N \<le> now_start w2 \<longrightarrow>
           (\<exists>cs. calls R2 = CreateChatModel (llmLocationModel config) # cs))
     \<and> (\<forall>(w :: 'w World_scheme) cd content loc.
           attempts config w cd \<and> createChatModel w = ModelReady \<and> invoke w = Content content
           \<and> parseLocationResponse P (stack_depth w) content = Inr (Some loc)
           \<and> \<not> raises_after_parse config loc
           \<longrightarrow> cooldownUntil (generateLocationWithLLM L P config w cd) = 0
             \<and> (\<exists>loc'. destination (generateLocationWithLLM L P config w cd) = Some loc')))"
proof -
  assume a: "attempts config w1 cd0"
    and f: "createChatModel w1 \<noteq> ModelReady \<or> invoke w1 = InvokeThrows"
    and n: "llmFailureCooldownMs config = Some N" "0 < N"
    and c2: "chatluna w2"
  define R1 where "R1 = generateLocationWithLLM L P config w1 cd0"
  define R2 where "R2 = generateLocationWithLLM L P config w2 (cooldownUntil R1)"
  have N: "cooldownMs_of config = N" using n by (simp add: cooldownMs_of_def)
  have en: "llmLocationEnabled config" "llmLocationModel config \<noteq> []"
    using a by (simp_all add: attempts_def)
  have "destination R1 = static_pick L w1
         \<and> cooldownUntil R1 = (if cooldownMs_of config > 0 then now_failure w1 + cooldownMs_of config else cd0)"
    using resolver_call_failure [OF a f, of L P] unfolding R1_def by blast
  then have r1: "cooldownUntil R1 = now_failure w1 + N" "destination R1 = static_pick L w1"
    using N n by simp_all
  have during: "calls R2 = [] \<and> destination R2 = static_pick L w2
           \<and> cooldownUntil R2 = cooldownUntil R1" if "now_start w2 < cooldownUntil R1"
    using resolver_in_cooldown [OF en c2 _ that, of L P] N n
    by (simp add: R2_def fallback_def static_pick_def)
  have after: "\<exists>cs. calls R2 = CreateChatModel (llmLocationModel config) # cs"
    if "now_failure w1 + N \<le> now_start w2"
  proof -
    have "attempts config w2 (cooldownUntil R1)"
      using en c2 that r1 by (simp add: attempts_def)
    then show ?thesis unfolding R2_def by (rule resolver_attempt_calls)
  qed
  have clear: "\<forall>(w :: 'w World_scheme) cd content loc.
           attempts config w cd \<and> createChatModel w = ModelReady \<and> invoke w = Content content
           \<and> parseLocationResponse P (stack_depth w) content = Inr (Some loc)
           \<and> \<not> raises_after_parse config loc
           \<longrightarrow> cooldownUntil (generateLocationWithLLM L P config w cd) = 0
             \<and> (\<exists>loc'. destination (generateLocationWithLLM L P config w cd) = Some loc')"
    using resolver_success [of config _ _ _ P _ L] by blast
  show ?thesis
    using r1 during after clear unfolding Let_def R1_def R2_def by blast
qed

text \<open>
  A failure at clock 3000 with a cooldown of 300000: the timestamp is 303000; a call at
  5000 makes no call to the services, a call at 400000 creates the model again.
\<close>

theorem cooldown_gating_witness:
  "attempts example_config (example_world 1000 NoModel InvokeThrows) 0
   \<and> createChatModel (example_world 1000 NoModel InvokeThrows) \<noteq> ModelReady
   \<and> llmFailureCooldownMs example_config = Some 300000 \<and> (0::int) < 300000
   \<and> chatluna (example_world 5000 ModelReady InvokeThrows)
   \<and> cooldownUntil (generateLocationWithLLM example_catalog example_parse example_config
        (example_world 1000 NoModel InvokeThrows) 0) = 303000
   \<and> calls (generateLocationWithLLM example_catalog example_parse example_config
        (example_world 5000 ModelReady InvokeThrows) 303000) = []
   \<and> calls (generateLocationWithLLM example_catalog example_parse example_config
        (example_world 400000 ModelReady InvokeThrows) 303000)
      = [CreateChatModel ''gemini-flash'', Invoke]"
proof -
  have a: "attempts example_config (example_world 1000 NoModel InvokeThrows) 0"
    by (simp add: example_attempts)
  have f: "createChatModel (example_world 1000 NoModel InvokeThrows) \<noteq> ModelReady
           \<or> invoke (example_world 1000 NoModel InvokeThrows) = InvokeThrows"
    by (simp add: example_world_fields)
  have n: "llmFailureCooldownMs example_config = Some 300000" "(0::int) < 300000"
    by (simp_all add: example_config_fields)
  have c: "chatluna (example_world 5000 ModelReady InvokeThrows)"
    by (simp add: example_world_fields)
  note t = cooldown_gating [OF a f n c, of example_catalog example_parse]
  have r1: "cooldownUntil (generateLocationWithLLM example_catalog example_parse example_config
        (example_world 1000 NoModel InvokeThrows) 0) = 303000"
    using t unfolding Let_def by (simp add: example_world_fields)
  have r2: "calls (generateLocationWithLLM example_catalog example_parse example_config
        (example_world 5000 ModelReady InvokeThrows) 303000) = []"
    using t unfolding Let_def r1 by (simp add: example_world_fields)
  have a3: "attempts example_config (example_world 400000 ModelReady InvokeThrows) 303000"
    by (simp add: example_attempts)
  have r3: "calls (generateLocationWithLLM example_catalog example_parse example_config
        (example_world 400000 ModelReady InvokeThrows) 303000)
      = [CreateChatModel ''gemini-flash'', Invoke]"
    using resolver_invoke_throws [OF a3, of example_catalog example_parse]
    by (simp add: example_world_fields failure_def example_config_fields)
  show ?thesis
    using a f n c r1 r2 r3 by (simp add: example_world_fields)
qed


section \<open>An answer that is malformed around a well-formed object\<close>

lemma example_chatty_object:
  "jsonStr example_chatty = example_chatty"
  "trim example_chatty = example_chatty"
  "objectMatch example_chatty = Some example_answer"
  by (simp_all add: example_chatty_def example_answer_def quoted_def jsonStr_def jsonMatch_def
        fence_def startsWith_def trim_def is_space_def objectMatch_def lastIndexOf_def)

lemma example_chatty_parsed:
  "parseLocationResponse example_parse 8 example_chatty = Inr (Some north_cape)"
proof -
  have "example_chatty \<noteq> example_answer" "example_chatty \<noteq> ''{}''"
    by (simp_all add: example_chatty_def example_answer_def quoted_def)
  then have "parseAttempt example_parse example_chatty = Inl SyntaxError"
    by (simp add: parseAttempt_def example_chatty_object example_parse_def)
  moreover have "parseLocationResponse example_parse 7 example_answer = Inr (Some north_cape)"
  proof -
    have "parseAttempt example_parse example_answer = Inr (Some north_cape)"
      by (simp add: parseAttempt_def example_answer_candidate example_parse_def example_answer_built)
    then show ?thesis by (simp add: eval_nat_numeral)
  qed
  ultimately show ?thesis
    by (simp add: eval_nat_numeral example_chatty_object)
qed

text \<open>
  C2 as stated fails on an answer that is malformed JSON and holds a well-formed object
  with the required fields: the model's answer is the example answer between two remarks,
  \<^verbatim>\<open>JSON.parse\<close> raises on it, the loose extraction finds the object, the parser returns
  the destination built from it and not \<^verbatim>\<open>null\<close>, and the resolver returns this
  destination, which is no entry of the catalog.
\<close>

theorem chatty_answer_is_parsed:
  "malformed example_parse example_chatty
   \<and> objectMatch example_chatty = Some example_answer
   \<and> parseLocationResponse example_parse 8 example_chatty = Inr (Some north_cape)
   \<and> parseLocationResponse example_parse 8 example_chatty \<noteq> Inr None
   \<and> destination (generateLocationWithLLM example_catalog example_parse example_config
         (example_world 1000 ModelReady (Content example_chatty)) 0) = Some north_cape
   \<and> north_cape \<notin> set example_catalog"
proof -
  have ne: "example_chatty \<noteq> example_answer" "example_chatty \<noteq> ''{}''"
    by (simp_all add: example_chatty_def example_answer_def quoted_def)
  have m: "malformed example_parse example_chatty"
    by (simp add: malformed_def example_chatty_object example_parse_def ne)
  have d: "destination (generateLocationWithLLM example_catalog example_parse example_config
         (example_world 1000 ModelReady (Content example_chatty)) 0) = Some north_cape"
    by (simp add: generateLocationWithLLM_def example_config_fields example_world_fields
          example_chatty_parsed Let_def)
       (simp add: north_cape_def)
  have n: "north_cape \<notin> set example_catalog"
    by (simp add: example_catalog_def example_location_def north_cape_def)
  show ?thesis
    using m d n by (simp add: example_chatty_object example_chatty_parsed)
qed

section \<open>Properties of the travel orchestrator\<close>



















section \<open>A destination whose country has no string form\<close>




section \<open>The deprecated configuration fields\<close>

lemma searchLoop_deprecated:
  "searchLoop (config \<lparr> sunriseApi := a, logPath := b \<rparr>) pexels unsplash queries
   = searchLoop config pexels unsplash queries"
  by (induction queries) (simp_all add: Let_def)

lemma generateLocationWithLLM_deprecated:
  "generateLocationWithLLM L P (config \<lparr> sunriseApi := a, logPath := b \<rparr>) w cd
   = generateLocationWithLLM L P config w cd"
  by (simp add: generateLocationWithLLM_def searchQueries_def searchLoop_deprecated
        cong del: if_weak_cong model_outcome.case_cong_weak invoke_outcome.case_cong_weak
          sum.case_cong_weak option.case_cong_weak prod.case_cong_weak)

lemma renderAndUpload_deprecated:
  "renderAndUpload (config \<lparr> sunriseApi := a, logPath := b \<rparr>) w = renderAndUpload config w"
  by (simp add: renderAndUpload_def
        cong del: if_weak_cong card_outcome.case_cong_weak upload_outcome.case_cong_weak)

lemma aigcBackground_deprecated:
  "aigcBackground (config \<lparr> sunriseApi := a, logPath := b \<rparr>) w loc = aigcBackground config w loc"
  by (simp add: aigcBackground_def)

lemma imageStep_deprecated:
  "imageStep (config \<lparr> sunriseApi := a, logPath := b \<rparr>) w loc = imageStep config w loc"
  by (simp add: imageStep_def aigcBackground_deprecated renderAndUpload_deprecated
        cong del: if_weak_cong sum.case_cong_weak prod.case_cong_weak
        split: sum.splits prod.splits)

lemma resolveLocation_deprecated:
  "resolveLocation L P (config \<lparr> sunriseApi := a, logPath := b \<rparr>) w cd
   = resolveLocation L P config w cd"
  by (simp add: resolveLocation_def generateLocationWithLLM_deprecated)

lemma triggerTravelSequence_deprecated:
  "triggerTravelSequence L P (config \<lparr> sunriseApi := a, logPath := b \<rparr>) w userInfo plat gid s
   = triggerTravelSequence L P config w userInfo plat gid s"
  by (simp add: triggerTravelSequence_def resolveLocation_deprecated imageStep_deprecated Let_def
        split: prod.splits option.splits sum.splits)

lemma statsMiddleware_deprecated:
  "statsMiddleware tz (config \<lparr> sunriseApi := a, logPath := b \<rparr>) now session db
   = statsMiddleware tz config now session db"
  by (simp add: statsMiddleware_def)

text \<open>
  Changing the two deprecated fields of a configuration changes nothing in what the
  operations embedded here that take the configuration return or store: the message
  statistics middleware, the destination resolver, the travel orchestrator and the two
  sunrise requests. The request address of the sunrise lookup is built from the
  coordinates and the date on a fixed address; the configuration is no argument of it.
\<close>

lemma deprecated_fields_unused:
  "(let config' = config \<lparr> sunriseApi := a, logPath := b \<rparr>
    in statsMiddleware tz config' now session db = statsMiddleware tz config now session db
     \<and> generateLocationWithLLM L P config' w cd = generateLocationWithLLM L P config w cd
     \<and> triggerTravelSequence L P config' tw userInfo plat gid s
         = triggerTravelSequence L P config tw userInfo plat gid s
     \<and> todaySunrise http_get String config' = todaySunrise http_get String config
     \<and> wakeUpSunrise http_get String config' latitude longitude
         = wakeUpSunrise http_get String config latitude longitude
     \<and> (\<exists>query. sunriseUrl String lat lng date = ''https://api.sunrise-sunset.org/json?'' @ query))"
proof -
  have "\<exists>query. sunriseUrl String lat lng date = ''https://api.sunrise-sunset.org/json?'' @ query"
    by (simp add: sunriseUrl_def)
  moreover have "wakeUpSunrise http_get String (config \<lparr> sunriseApi := a, logPath := b \<rparr>)
      latitude longitude = wakeUpSunrise http_get String config latitude longitude"
    by (cases latitude; cases longitude) (simp_all add: wakeUpSunrise_def)
  ultimately show ?thesis
    by (simp add: Let_def statsMiddleware_deprecated generateLocationWithLLM_deprecated
          triggerTravelSequence_deprecated todaySunrise_def)
qed

text \<open>
  The example configuration with and without values for the deprecated fields: the
  sunrise request goes to the fixed address and returns the same instants.
\<close>

lemma deprecated_fields_unused_example:
  "todaySunrise example_http show_int
      (example_config \<lparr> sunriseApi := Some ''https://example.org/sun'', logPath := Some ''./logs'' \<rparr>)
     = Inr \<lparr> sunrise = 21600000, sunset = 64800000 \<rparr>
   \<and> todaySunrise example_http show_int example_config
     = Inr \<lparr> sunrise = 21600000, sunset = 64800000 \<rparr>
   \<and> sunriseApi (example_config \<lparr> sunriseApi := Some ''https://example.org/sun'',
         logPath := Some ''./logs'' \<rparr>) \<noteq> sunriseApi example_config"
proof -
  have s: "show_int 30 = ''30''" "show_int 120 = ''120''"
    by (simp_all add: show_int_def)
  have e: "todaySunrise example_http show_int example_config
     = Inr \<lparr> sunrise = 21600000, sunset = 64800000 \<rparr>"
    by (simp add: todaySunrise_def getSunriseInfo_def sunriseUrl_def example_config_fields s
          example_http_def)
  have "todaySunrise example_http show_int
      (example_config \<lparr> sunriseApi := Some ''https://example.org/sun'', logPath := Some ''./logs'' \<rparr>)
     = todaySunrise example_http show_int example_config"
    using deprecated_fields_unused [where config = example_config
        and a = "Some ''https://example.org/sun''" and b = "Some ''./logs''"
        and http_get = example_http and String = show_int]
    unfolding Let_def by blast
  then show ?thesis
    using e by (simp add: example_config_fields)
qed

end
